theory Spec2Isabelle
  imports Main "HOL-Library.Product_Lexorder"
begin

section \<open>The persisted schema, as \<open>tirtha/admin.py\<close> sees it\<close>

text \<open>
  \<open>admin.py\<close> registers six models. Their declarations (\<open>models.py\<close>) are not part of
  the sources at hand, so every record below lists exactly the fields that \<open>admin.py\<close>
  names in a \<open>fieldsets\<close>, \<open>fields\<close> or \<open>readonly_fields\<close> tuple or reads through an
  attribute (\<open>obj.contribution.mesh\<close>, \<open>obj.run.images\<close>, ...). Primary keys and
  timestamps are natural numbers, text and file references are strings, a foreign key holds
  the primary key of the row it points to, and a many-to-many field holds the list of
  primary keys on the other side.
\<close>

type_synonym pk = nat
type_synonym timestamp = nat

record Mesh =
  ID :: pk
  verbose_id :: string
  created_at :: timestamp
  updated_at :: timestamp
  reconstructed_at :: "timestamp option"
  status :: string
  completed :: bool
  hidden :: bool
  name :: string
  country :: string
  state :: string
  district :: string
  description :: string
  center_image :: string
  denoise :: bool
  rotaZ :: int
  rotaX :: int
  rotaY :: int
  minObsAng :: int
  orientMesh :: string
  thumbnail :: string
  preview :: string

record Contributor =
  ID :: pk
  created_at :: timestamp
  updated_at :: timestamp
  name :: string
  email :: string
  banned :: bool
  ban_reason :: string

record Contribution =
  ID :: pk
  mesh :: pk
  contributor :: pk
  contributed_at :: timestamp
  processed :: bool
  processed_at :: "timestamp option"

text \<open>The file field \<open>image\<close> of an Image is called \<open>image_file\<close> here.\<close>

record Image =
  ID :: pk
  contribution :: pk
  created_at :: timestamp
  image_file :: string
  label :: string
  remark :: string

text \<open>
  Modelled from the spec: the values of \<open>Run.status\<close>, which never occur in \<open>admin.py\<close>;
  the four states are the ones the specification lists (\<open>queued\<close>, \<open>running\<close>,
  \<open>succeeded\<close>, \<open>failed\<close>).
\<close>

datatype run_status = Queued | Running | Succeeded | Failed

record Run =
  ID :: pk
  ark :: "string option"
  mesh :: pk
  status :: run_status
  started_at :: timestamp
  ended_at :: "timestamp option"
  directory :: string
  rotaZ :: int
  rotaX :: int
  rotaY :: int
  images :: "pk list"
  contributors :: "pk list"

record ARK =
  ark :: string
  run :: pk
  naan :: string
  shoulder :: string
  assigned_name :: string
  created_at :: timestamp
  url :: string
  metadata :: string
  commitment :: string

text \<open>The database: one table (a list of rows) per registered model.\<close>

record db =
  meshes :: "Mesh list"
  contributor_rows :: "Contributor list"
  contributions :: "Contribution list"
  image_rows :: "Image list"
  runs :: "Run list"
  arks :: "ARK list"


section \<open>Querysets, \<open>update\<close>, \<open>count\<close> and user messages\<close>

text \<open>
  A queryset is a lazy selection of rows of one table; it is modelled by the predicate of
  its \<open>WHERE\<close> clause. \<open>queryset.update(field=v)\<close> runs one SQL \<open>UPDATE\<close>: every row the
  predicate selects gets the assignment, every other row is left as it is, and the call
  returns the number of rows matched. \<open>queryset.count()\<close> is the number of selected rows.
\<close>

definition queryset_update :: "('r \<Rightarrow> bool) \<Rightarrow> ('r \<Rightarrow> 'r) \<Rightarrow> 'r list \<Rightarrow> 'r list \<times> nat" where
  "queryset_update queryset assign tbl =
     (map (\<lambda>r. if queryset r then assign r else r) tbl, length (filter queryset tbl))"

definition count :: "('r \<Rightarrow> bool) \<Rightarrow> 'r list \<Rightarrow> nat" where
  "count queryset tbl = length (filter queryset tbl)"

text \<open>
  \<open>ngettext(singular, plural, n)\<close> without a translation catalogue picks the singular
  exactly for \<open>n = 1\<close>. \<open>template % n\<close> replaces the first \<open>%d\<close> of the template by the
  decimal digits of \<open>n\<close>.
\<close>

definition ngettext :: "string \<Rightarrow> string \<Rightarrow> nat \<Rightarrow> string" where
  "ngettext singular plural n = (if n = 1 then singular else plural)"

definition digit :: "nat \<Rightarrow> char" where
  "digit d = ''0123456789'' ! d"

function str_nat :: "nat \<Rightarrow> string" where
  "str_nat n = (if n < 10 then [digit n] else str_nat (n div 10) @ [digit (n mod 10)])"
  by pat_completeness auto
termination
  by (relation "measure (\<lambda>n. n)") auto

declare str_nat.simps [simp del]

fun percent_d :: "string \<Rightarrow> nat \<Rightarrow> string" where
  "percent_d (c1 # c2 # cs) n =
     (if c1 = CHR ''%'' \<and> c2 = CHR ''d'' then str_nat n @ cs else c1 # percent_d (c2 # cs) n)"
| "percent_d cs n = cs"

datatype level = SUCCESS

record message =
  msg_text :: string
  msg_level :: level

definition message_user :: "string \<Rightarrow> level \<Rightarrow> message" where
  "message_user msg lvl = \<lparr>msg_text = msg, msg_level = lvl\<rparr>"

text \<open>
  How a reader takes a number from a message: the leading run of digit characters, read
  in base ten. \<open>reads_as msg n rest\<close> says that \<open>msg\<close> starts with the decimal numeral of
  \<open>n\<close>, written without a leading zero, and goes on with \<open>rest\<close>.
\<close>

definition is_digit :: "char \<Rightarrow> bool" where
  "is_digit c = (c \<in> set ''0123456789'')"

definition digit_value :: "char \<Rightarrow> nat" where
  "digit_value c = of_char c - 48"

definition decimal :: "string \<Rightarrow> nat" where
  "decimal cs = foldl (\<lambda>v c. 10 * v + digit_value c) 0 cs"

definition reads_as :: "string \<Rightarrow> nat \<Rightarrow> string \<Rightarrow> bool" where
  "reads_as msg n rest =
     (takeWhile is_digit msg \<noteq> [] \<and>
      decimal (takeWhile is_digit msg) = n \<and>
      (hd msg = CHR ''0'' \<longrightarrow> takeWhile is_digit msg = ''0'') \<and>
      dropWhile is_digit msg = rest)"


section \<open>The bulk actions\<close>

text \<open>
  Every action takes the queryset of the selected rows and the table it ranges over, and
  returns the table after the \<open>UPDATE\<close> together with the message shown to the user.
\<close>

subsection \<open>\<open>MeshAdmin\<close>\<close>

definition mark_completed :: "(Mesh \<Rightarrow> bool) \<Rightarrow> Mesh list \<Rightarrow> Mesh list \<times> message" where
  "mark_completed queryset tbl =
     (let (tbl', updated) = queryset_update queryset (\<lambda>r. r\<lparr>completed := True\<rparr>) tbl
      in (tbl', message_user
            (percent_d (ngettext ''%d mesh was successfully marked as completed.''
                                 ''%d meshes were successfully marked as completed.''
                                 updated) updated)
            SUCCESS))"

definition mark_incomplete :: "(Mesh \<Rightarrow> bool) \<Rightarrow> Mesh list \<Rightarrow> Mesh list \<times> message" where
  "mark_incomplete queryset tbl =
     (let (tbl', updated) = queryset_update queryset (\<lambda>r. r\<lparr>completed := False\<rparr>) tbl
      in (tbl', message_user
            (percent_d (ngettext ''%d mesh was successfully marked as incomplete.''
                                 ''%d meshes were successfully marked as incomplete.''
                                 updated) updated)
            SUCCESS))"

definition mark_hidden :: "(Mesh \<Rightarrow> bool) \<Rightarrow> Mesh list \<Rightarrow> Mesh list \<times> message" where
  "mark_hidden queryset tbl =
     (let (tbl', updated) = queryset_update queryset (\<lambda>r. r\<lparr>hidden := True\<rparr>) tbl
      in (tbl', message_user
            (percent_d (ngettext ''%d mesh was successfully marked as hidden.''
                                 ''%d meshes were successfully marked as hidden.''
                                 updated) updated)
            SUCCESS))"

definition mark_not_hidden :: "(Mesh \<Rightarrow> bool) \<Rightarrow> Mesh list \<Rightarrow> Mesh list \<times> message" where
  "mark_not_hidden queryset tbl =
     (let (tbl', updated) = queryset_update queryset (\<lambda>r. r\<lparr>hidden := False\<rparr>) tbl
      in (tbl', message_user
            (percent_d (ngettext ''%d mesh was successfully marked as not hidden.''
                                 ''%d meshes were successfully marked as not hidden.''
                                 updated) updated)
            SUCCESS))"

subsection \<open>\<open>ContributorAdmin\<close>\<close>

definition ban_contributors ::
  "(Contributor \<Rightarrow> bool) \<Rightarrow> Contributor list \<Rightarrow> Contributor list \<times> message" where
  "ban_contributors queryset tbl =
     (let (tbl', updated) = queryset_update queryset (\<lambda>r. r\<lparr>banned := True\<rparr>) tbl
      in (tbl', message_user
            (percent_d (ngettext ''%d contributor was successfully banned.''
                                 ''%d contributors were successfully banned.''
                                 updated) updated)
            SUCCESS))"

definition unban_contributors ::
  "(Contributor \<Rightarrow> bool) \<Rightarrow> Contributor list \<Rightarrow> Contributor list \<times> message" where
  "unban_contributors queryset tbl =
     (let (tbl', updated) = queryset_update queryset (\<lambda>r. r\<lparr>banned := False\<rparr>) tbl
      in (tbl', message_user
            (percent_d (ngettext ''%d contributor was successfully unbanned.''
                                 ''%d contributors were successfully unbanned.''
                                 updated) updated)
            SUCCESS))"

subsection \<open>\<open>ImageAdmin\<close>\<close>

definition mark_good :: "(Image \<Rightarrow> bool) \<Rightarrow> Image list \<Rightarrow> Image list \<times> message" where
  "mark_good queryset tbl =
     (let (tbl', updated) = queryset_update queryset (\<lambda>r. r\<lparr>label := ''good''\<rparr>) tbl
      in (tbl', message_user
            (percent_d (ngettext ''%d image was successfully marked as Good.''
                                 ''%d images were successfully marked as Good.''
                                 updated) updated)
            SUCCESS))"

definition mark_bad :: "(Image \<Rightarrow> bool) \<Rightarrow> Image list \<Rightarrow> Image list \<times> message" where
  "mark_bad queryset tbl =
     (let (tbl', updated) = queryset_update queryset (\<lambda>r. r\<lparr>label := ''bad''\<rparr>) tbl
      in (tbl', message_user
            (percent_d (ngettext ''%d image was successfully marked as Bad.''
                                 ''%d images were successfully marked as Bad.''
                                 updated) updated)
            SUCCESS))"

definition mark_nsfw :: "(Image \<Rightarrow> bool) \<Rightarrow> Image list \<Rightarrow> Image list \<times> message" where
  "mark_nsfw queryset tbl =
     (let (tbl', updated) = queryset_update queryset (\<lambda>r. r\<lparr>label := ''nsfw''\<rparr>) tbl
      in (tbl', message_user
            (percent_d (ngettext ''%d image was successfully marked as NSFW.''
                                 ''%d images were successfully marked as NSFW.''
                                 updated) updated)
            SUCCESS))"


section \<open>The computed columns\<close>

text \<open>
  A lookup through a foreign key (\<open>contribution__mesh=obj\<close>) is an inner join: one result
  row per pair of an image and a contribution whose key the image holds. A reverse manager
  (\<open>obj.contributions\<close>, \<open>obj.images\<close>) is the selection of the rows that point to \<open>obj\<close>.
  Each function takes the tables it reads.
\<close>

definition Mesh_contributions :: "Contribution list \<Rightarrow> Mesh \<Rightarrow> Contribution list" where
  "Mesh_contributions cs obj = filter (\<lambda>c. Contribution.mesh c = Mesh.ID obj) cs"

definition Contributor_contributions :: "Contribution list \<Rightarrow> Contributor \<Rightarrow> Contribution list" where
  "Contributor_contributions cs obj = filter (\<lambda>c. Contribution.contributor c = Contributor.ID obj) cs"

definition Contribution_images :: "Image list \<Rightarrow> Contribution \<Rightarrow> Image list" where
  "Contribution_images imgs obj = filter (\<lambda>i. Image.contribution i = Contribution.ID obj) imgs"

definition MeshAdmin_contrib_count :: "Contribution list \<Rightarrow> Mesh \<Rightarrow> nat" where
  "MeshAdmin_contrib_count cs obj = length (Mesh_contributions cs obj)"

definition MeshAdmin_image_count :: "Image list \<Rightarrow> Contribution list \<Rightarrow> Mesh \<Rightarrow> nat" where
  "MeshAdmin_image_count imgs cs obj =
     length [i. i \<leftarrow> imgs, c \<leftarrow> cs,
                Image.contribution i = Contribution.ID c \<and> Contribution.mesh c = Mesh.ID obj]"

definition ContributorAdmin_contrib_count :: "Contribution list \<Rightarrow> Contributor \<Rightarrow> nat" where
  "ContributorAdmin_contrib_count cs obj = length (Contributor_contributions cs obj)"

definition ContributorAdmin_image_count ::
  "Image list \<Rightarrow> Contribution list \<Rightarrow> Contributor \<Rightarrow> nat" where
  "ContributorAdmin_image_count imgs cs obj =
     length [i. i \<leftarrow> imgs, c \<leftarrow> cs,
                Image.contribution i = Contribution.ID c \<and>
                Contribution.contributor c = Contributor.ID obj]"

definition ContributionAdmin_image_count :: "Image list \<Rightarrow> Contribution \<Rightarrow> nat" where
  "ContributionAdmin_image_count imgs obj = length (Contribution_images imgs obj)"

definition ContributionAdmin_images_good_count :: "Image list \<Rightarrow> Contribution \<Rightarrow> nat" where
  "ContributionAdmin_images_good_count imgs obj =
     length (filter (\<lambda>i. label i = ''good'') (Contribution_images imgs obj))"


section \<open>The admin classes\<close>

text \<open>
  An inline and a \<open>ModelAdmin\<close> are records of their class attributes. A model is named by
  a string (\<open>Run.images.through\<close> is \<open>''Run_images''\<close>), \<open>fieldsets\<close> is written flattened,
  in the order of the source, and an attribute the class does not set has Django's default
  (\<open>max_num = None\<close>, \<open>can_delete = True\<close>, no \<open>fields\<close>, no \<open>readonly_fields\<close>). The
  attributes \<open>list_display\<close>, \<open>list_filter\<close> and \<open>list_per_page\<close> only shape the list page
  and are left out. \<open>ContributionAdmin\<close> sets \<open>fields\<close> instead of \<open>fieldsets\<close>; Django
  makes one fieldset of it, so the tuple is entered as \<open>fieldsets\<close>.
\<close>

record inline_admin =
  model :: string
  readonly_fields :: "string list"
  fields_tuple :: "string list"
  extra :: nat
  max_num :: "nat option"
  can_delete :: bool

record model_admin =
  model :: string
  actions :: "string list"
  fieldsets :: "string list"
  readonly_fields :: "string list"
  inlines :: "inline_admin list"

definition ContributionsInline :: inline_admin where
  "ContributionsInline =
     \<lparr>inline_admin.model = ''Contribution'',
      readonly_fields = [''contribution_ts'', ''contribution_link'', ''processed''],
      fields_tuple = [''ID'', ''contribution_ts'', ''contribution_link'', ''processed''],
      extra = 0, max_num = Some 0, can_delete = True\<rparr>"

definition ContributionInlineMesh :: inline_admin where
  "ContributionInlineMesh =
     ContributionsInline
       \<lparr>inline_admin.readonly_fields :=
          inline_admin.readonly_fields ContributionsInline @ [''contributor_email''],
        fields_tuple := fields_tuple ContributionsInline @ [''contributor_email'']\<rparr>"

definition ContributionInlineContributor :: inline_admin where
  "ContributionInlineContributor =
     ContributionsInline
       \<lparr>inline_admin.readonly_fields :=
          inline_admin.readonly_fields ContributionsInline @ [''mesh_id''],
        fields_tuple := fields_tuple ContributionsInline @ [''mesh_id'']\<rparr>"


definition ImageInlineContribution :: inline_admin where
  "ImageInlineContribution =
     \<lparr>inline_admin.model = ''Image'',
      readonly_fields = [''get_image'', ''image_link''],
      fields_tuple = [''ID'', ''get_image'', ''image_link''],
      extra = 0, max_num = Some 0, can_delete = True\<rparr>"

definition ImageInlineRun :: inline_admin where
  "ImageInlineRun =
     \<lparr>inline_admin.model = ''Run_images'', readonly_fields = [], fields_tuple = [],
      extra = 0, max_num = None, can_delete = True\<rparr>"

definition ContributorInlineRun :: inline_admin where
  "ContributorInlineRun =
     \<lparr>inline_admin.model = ''Run_contributors'', readonly_fields = [], fields_tuple = [],
      extra = 0, max_num = None, can_delete = True\<rparr>"

text \<open>
  \<open>MeshAdmin.inlines\<close> holds \<open>ContributionInlineMesh\<close> only: the source has
  \<open>RunInlineMesh\<close> commented out of the list.
\<close>

definition MeshAdmin :: model_admin where
  "MeshAdmin =
     \<lparr>model_admin.model = ''Mesh'',
      actions = [''mark_completed'', ''mark_incomplete'', ''mark_hidden'', ''mark_not_hidden''],
      fieldsets =
        [''ID'', ''verbose_id'',
         ''created_at'', ''updated_at'', ''reconstructed_at'',
         ''status'', ''completed'', ''hidden'',
         ''name'', ''country'', ''state'', ''district'',
         ''description'',
         ''center_image'', ''denoise'',
         ''rotaZ'', ''rotaX'', ''rotaY'', ''minObsAng'', ''orientMesh'',
         ''thumbnail'', ''get_thumbnail'',
         ''preview'', ''get_preview''],
      readonly_fields =
        [''ID'', ''verbose_id'', ''created_at'', ''updated_at'', ''reconstructed_at'',
         ''get_preview'', ''get_thumbnail''],
      inlines = [ContributionInlineMesh]\<rparr>"

definition ContributorAdmin :: model_admin where
  "ContributorAdmin =
     \<lparr>model_admin.model = ''Contributor'',
      actions = [''ban_contributors'', ''unban_contributors''],
      fieldsets =
        [''ID'', ''created_at'', ''updated_at'', ''name'', ''email'', ''banned'', ''ban_reason''],
      readonly_fields = [''ID'', ''created_at'', ''updated_at''],
      inlines = [ContributionInlineContributor]\<rparr>"

definition ContributionAdmin :: model_admin where
  "ContributionAdmin =
     \<lparr>model_admin.model = ''Contribution'',
      actions = [],
      fieldsets =
        [''ID'', ''contributed_at'', ''mesh'', ''contributor'', ''processed'', ''processed_at'',
         ''image_count'', ''images_good_count''],
      readonly_fields =
        [''ID'', ''mesh'', ''contributor'', ''contributed_at'', ''processed'', ''processed_at'',
         ''image_count'', ''images_good_count''],
      inlines = [ImageInlineContribution]\<rparr>"

definition ImageAdmin :: model_admin where
  "ImageAdmin =
     \<lparr>model_admin.model = ''Image'',
      actions = [''mark_good'', ''mark_bad'', ''mark_nsfw''],
      fieldsets =
        [''note'', ''ID'', ''get_mesh_id_verbose'', ''get_contributor_link'', ''contribution'',
         ''created_at'', ''image'', ''get_thumbnail'', ''label'', ''remark''],
      readonly_fields =
        [''ID'', ''contribution'', ''created_at'', ''image'', ''note'', ''get_thumbnail'',
         ''get_mesh_id_verbose'', ''get_contributor_link''],
      inlines = []\<rparr>"

definition RunAdmin :: model_admin where
  "RunAdmin =
     \<lparr>model_admin.model = ''Run'',
      actions = [],
      fieldsets =
        [''ID'', ''ark'', ''mesh_id_verbose'', ''status'', ''started_at'', ''ended_at'',
         ''directory'', ''image_count'', ''rotaZ'', ''rotaX'', ''rotaY''],
      readonly_fields =
        [''ID'', ''ark'', ''mesh_id_verbose'', ''started_at'', ''ended_at'', ''image_count'',
         ''status'', ''directory''],
      inlines = [ImageInlineRun, ContributorInlineRun]\<rparr>"

definition ARKAdmin :: model_admin where
  "ARKAdmin =
     \<lparr>model_admin.model = ''ARK'',
      actions = [],
      fieldsets =
        [''ark'', ''url'', ''created_at'', ''get_run'', ''mesh_id_verbose'', ''image_count'',
         ''naan'', ''shoulder'', ''assigned_name'', ''metadata'', ''commitment''],
      readonly_fields =
        [''ark'', ''get_run'', ''mesh_id_verbose'', ''image_count'', ''naan'', ''shoulder'',
         ''assigned_name'', ''created_at'', ''url'', ''metadata''],
      inlines = []\<rparr>"


section \<open>Saving a change form\<close>

text \<open>
  Django builds the change form of a \<open>ModelAdmin\<close> from the flattened \<open>fieldsets\<close> minus
  \<open>readonly_fields\<close>; saving the form assigns the posted value of each form field to the
  object and leaves every other field of the object as it is. (A name of \<open>fieldsets\<close> that
  is neither read-only nor an editable model field makes Django reject the form class, so
  on a change page that works every remaining name is an editable field.) \<open>posted\<close> is the
  submitted data, one value per field; \<open>edited\<close> picks the posted value for a form field and
  the stored one otherwise. Hooks of the model layer (\<open>auto_now\<close>, \<open>save\<close> overrides,
  signals) are declared outside \<open>admin.py\<close> and are not modelled.
\<close>

definition form_fields :: "model_admin \<Rightarrow> string list" where
  "form_fields a = filter (\<lambda>f. f \<notin> set (model_admin.readonly_fields a)) (fieldsets a)"

definition edited :: "model_admin \<Rightarrow> string \<Rightarrow> 'a \<Rightarrow> 'a \<Rightarrow> 'a" where
  "edited a f posted stored = (if f \<in> set (form_fields a) then posted else stored)"

text \<open>
  An inline lists the rows of its model that belong to the object; the rows of a
  many-to-many \<open>through\<close> model are the object's memberships. An inline that can delete
  rows, or add rows (\<open>max_num\<close> is not 0), lets the form change the memberships.
\<close>

definition inline_edits :: "model_admin \<Rightarrow> string \<Rightarrow> bool" where
  "inline_edits a m =
     list_ex (\<lambda>i. inline_admin.model i = m \<and> (can_delete i \<or> max_num i \<noteq> Some 0)) (inlines a)"

definition save_Mesh :: "Mesh \<Rightarrow> Mesh \<Rightarrow> Mesh" where
  "save_Mesh posted obj =
     obj\<lparr>Mesh.ID := edited MeshAdmin ''ID'' (Mesh.ID posted) (Mesh.ID obj),
         verbose_id := edited MeshAdmin ''verbose_id'' (verbose_id posted) (verbose_id obj),
         Mesh.created_at :=
           edited MeshAdmin ''created_at'' (Mesh.created_at posted) (Mesh.created_at obj),
         Mesh.updated_at :=
           edited MeshAdmin ''updated_at'' (Mesh.updated_at posted) (Mesh.updated_at obj),
         reconstructed_at :=
           edited MeshAdmin ''reconstructed_at'' (reconstructed_at posted) (reconstructed_at obj),
         Mesh.status := edited MeshAdmin ''status'' (Mesh.status posted) (Mesh.status obj),
         completed := edited MeshAdmin ''completed'' (completed posted) (completed obj),
         hidden := edited MeshAdmin ''hidden'' (hidden posted) (hidden obj),
         Mesh.name := edited MeshAdmin ''name'' (Mesh.name posted) (Mesh.name obj),
         country := edited MeshAdmin ''country'' (country posted) (country obj),
         state := edited MeshAdmin ''state'' (state posted) (state obj),
         district := edited MeshAdmin ''district'' (district posted) (district obj),
         description := edited MeshAdmin ''description'' (description posted) (description obj),
         center_image :=
           edited MeshAdmin ''center_image'' (center_image posted) (center_image obj),
         denoise := edited MeshAdmin ''denoise'' (denoise posted) (denoise obj),
         Mesh.rotaZ := edited MeshAdmin ''rotaZ'' (Mesh.rotaZ posted) (Mesh.rotaZ obj),
         Mesh.rotaX := edited MeshAdmin ''rotaX'' (Mesh.rotaX posted) (Mesh.rotaX obj),
         Mesh.rotaY := edited MeshAdmin ''rotaY'' (Mesh.rotaY posted) (Mesh.rotaY obj),
         minObsAng := edited MeshAdmin ''minObsAng'' (minObsAng posted) (minObsAng obj),
         orientMesh := edited MeshAdmin ''orientMesh'' (orientMesh posted) (orientMesh obj),
         thumbnail := edited MeshAdmin ''thumbnail'' (thumbnail posted) (thumbnail obj),
         preview := edited MeshAdmin ''preview'' (preview posted) (preview obj)\<rparr>"

definition save_Contributor :: "Contributor \<Rightarrow> Contributor \<Rightarrow> Contributor" where
  "save_Contributor posted obj =
     obj\<lparr>Contributor.ID :=
           edited ContributorAdmin ''ID'' (Contributor.ID posted) (Contributor.ID obj),
         Contributor.created_at :=
           edited ContributorAdmin ''created_at''
             (Contributor.created_at posted) (Contributor.created_at obj),
         Contributor.updated_at :=
           edited ContributorAdmin ''updated_at''
             (Contributor.updated_at posted) (Contributor.updated_at obj),
         Contributor.name :=
           edited ContributorAdmin ''name'' (Contributor.name posted) (Contributor.name obj),
         email := edited ContributorAdmin ''email'' (email posted) (email obj),
         banned := edited ContributorAdmin ''banned'' (banned posted) (banned obj),
         ban_reason := edited ContributorAdmin ''ban_reason'' (ban_reason posted) (ban_reason obj)\<rparr>"

definition save_Contribution :: "Contribution \<Rightarrow> Contribution \<Rightarrow> Contribution" where
  "save_Contribution posted obj =
     obj\<lparr>Contribution.ID :=
           edited ContributionAdmin ''ID'' (Contribution.ID posted) (Contribution.ID obj),
         Contribution.mesh :=
           edited ContributionAdmin ''mesh'' (Contribution.mesh posted) (Contribution.mesh obj),
         contributor :=
           edited ContributionAdmin ''contributor'' (contributor posted) (contributor obj),
         contributed_at :=
           edited ContributionAdmin ''contributed_at'' (contributed_at posted) (contributed_at obj),
         processed := edited ContributionAdmin ''processed'' (processed posted) (processed obj),
         processed_at :=
           edited ContributionAdmin ''processed_at'' (processed_at posted) (processed_at obj)\<rparr>"

definition save_Image :: "Image \<Rightarrow> Image \<Rightarrow> Image" where
  "save_Image posted obj =
     obj\<lparr>Image.ID := edited ImageAdmin ''ID'' (Image.ID posted) (Image.ID obj),
         contribution := edited ImageAdmin ''contribution'' (contribution posted) (contribution obj),
         Image.created_at :=
           edited ImageAdmin ''created_at'' (Image.created_at posted) (Image.created_at obj),
         image_file := edited ImageAdmin ''image'' (image_file posted) (image_file obj),
         label := edited ImageAdmin ''label'' (label posted) (label obj),
         remark := edited ImageAdmin ''remark'' (remark posted) (remark obj)\<rparr>"

definition save_Run :: "Run \<Rightarrow> Run \<Rightarrow> Run" where
  "save_Run posted obj =
     obj\<lparr>Run.ID := edited RunAdmin ''ID'' (Run.ID posted) (Run.ID obj),
         Run.ark := edited RunAdmin ''ark'' (Run.ark posted) (Run.ark obj),
         Run.mesh := edited RunAdmin ''mesh'' (Run.mesh posted) (Run.mesh obj),
         Run.status := edited RunAdmin ''status'' (Run.status posted) (Run.status obj),
         started_at := edited RunAdmin ''started_at'' (started_at posted) (started_at obj),
         ended_at := edited RunAdmin ''ended_at'' (ended_at posted) (ended_at obj),
         directory := edited RunAdmin ''directory'' (directory posted) (directory obj),
         Run.rotaZ := edited RunAdmin ''rotaZ'' (Run.rotaZ posted) (Run.rotaZ obj),
         Run.rotaX := edited RunAdmin ''rotaX'' (Run.rotaX posted) (Run.rotaX obj),
         Run.rotaY := edited RunAdmin ''rotaY'' (Run.rotaY posted) (Run.rotaY obj),
         images := (if inline_edits RunAdmin ''Run_images'' then images posted else images obj),
         contributors :=
           (if inline_edits RunAdmin ''Run_contributors'' then contributors posted
            else contributors obj)\<rparr>"

definition save_ARK :: "ARK \<Rightarrow> ARK \<Rightarrow> ARK" where
  "save_ARK posted obj =
     obj\<lparr>ARK.ark := edited ARKAdmin ''ark'' (ARK.ark posted) (ARK.ark obj),
         run := edited ARKAdmin ''run'' (run posted) (run obj),
         naan := edited ARKAdmin ''naan'' (naan posted) (naan obj),
         shoulder := edited ARKAdmin ''shoulder'' (shoulder posted) (shoulder obj),
         assigned_name :=
           edited ARKAdmin ''assigned_name'' (assigned_name posted) (assigned_name obj),
         ARK.created_at :=
           edited ARKAdmin ''created_at'' (ARK.created_at posted) (ARK.created_at obj),
         url := edited ARKAdmin ''url'' (url posted) (url obj),
         metadata := edited ARKAdmin ''metadata'' (metadata posted) (metadata obj),
         commitment := edited ARKAdmin ''commitment'' (commitment posted) (commitment obj)\<rparr>"


section \<open>The edit operations of the admin site\<close>

text \<open>
  An edit operation is the save of one change form, addressed by the primary key in its
  URL, or one of the bulk actions that \<open>admin.py\<close> declares, on a queryset. The change
  view saves the row with that key; a key with no row changes nothing. An action replaces
  its table and shows its message, which the state does not hold. The operations that
  delete or add rows follow in the next section; \<open>site_op\<close> there is every operation of
  the site.
\<close>

datatype admin_op =
    Change_Mesh pk Mesh
  | Change_Contributor pk Contributor
  | Change_Contribution pk Contribution
  | Change_Image pk Image
  | Change_Run pk Run
  | Change_ARK string ARK
  | Action_mark_completed "Mesh \<Rightarrow> bool"
  | Action_mark_incomplete "Mesh \<Rightarrow> bool"
  | Action_mark_hidden "Mesh \<Rightarrow> bool"
  | Action_mark_not_hidden "Mesh \<Rightarrow> bool"
  | Action_ban_contributors "Contributor \<Rightarrow> bool"
  | Action_unban_contributors "Contributor \<Rightarrow> bool"
  | Action_mark_good "Image \<Rightarrow> bool"
  | Action_mark_bad "Image \<Rightarrow> bool"
  | Action_mark_nsfw "Image \<Rightarrow> bool"

definition change_view :: "('r \<Rightarrow> 'k) \<Rightarrow> ('r \<Rightarrow> 'r) \<Rightarrow> 'k \<Rightarrow> 'r list \<Rightarrow> 'r list" where
  "change_view key save k tbl = map (\<lambda>r. if key r = k then save r else r) tbl"

fun admin_apply :: "admin_op \<Rightarrow> db \<Rightarrow> db" where
  "admin_apply (Change_Mesh k posted) s =
     s\<lparr>meshes := change_view Mesh.ID (save_Mesh posted) k (meshes s)\<rparr>"
| "admin_apply (Change_Contributor k posted) s =
     s\<lparr>contributor_rows :=
         change_view Contributor.ID (save_Contributor posted) k (contributor_rows s)\<rparr>"
| "admin_apply (Change_Contribution k posted) s =
     s\<lparr>contributions :=
         change_view Contribution.ID (save_Contribution posted) k (contributions s)\<rparr>"
| "admin_apply (Change_Image k posted) s =
     s\<lparr>image_rows := change_view Image.ID (save_Image posted) k (image_rows s)\<rparr>"
| "admin_apply (Change_Run k posted) s =
     s\<lparr>runs := change_view Run.ID (save_Run posted) k (runs s)\<rparr>"
| "admin_apply (Change_ARK k posted) s =
     s\<lparr>arks := change_view ARK.ark (save_ARK posted) k (arks s)\<rparr>"
| "admin_apply (Action_mark_completed q) s = s\<lparr>meshes := fst (mark_completed q (meshes s))\<rparr>"
| "admin_apply (Action_mark_incomplete q) s = s\<lparr>meshes := fst (mark_incomplete q (meshes s))\<rparr>"
| "admin_apply (Action_mark_hidden q) s = s\<lparr>meshes := fst (mark_hidden q (meshes s))\<rparr>"
| "admin_apply (Action_mark_not_hidden q) s = s\<lparr>meshes := fst (mark_not_hidden q (meshes s))\<rparr>"
| "admin_apply (Action_ban_contributors q) s =
     s\<lparr>contributor_rows := fst (ban_contributors q (contributor_rows s))\<rparr>"
| "admin_apply (Action_unban_contributors q) s =
     s\<lparr>contributor_rows := fst (unban_contributors q (contributor_rows s))\<rparr>"
| "admin_apply (Action_mark_good q) s = s\<lparr>image_rows := fst (mark_good q (image_rows s))\<rparr>"
| "admin_apply (Action_mark_bad q) s = s\<lparr>image_rows := fst (mark_bad q (image_rows s))\<rparr>"
| "admin_apply (Action_mark_nsfw q) s = s\<lparr>image_rows := fst (mark_nsfw q (image_rows s))\<rparr>"


section \<open>Deleting rows\<close>

text \<open>
  \<open>admin.py\<close> switches no stock feature of the admin site off: every \<open>ModelAdmin\<close> keeps
  the \<open>delete_selected\<close> action and its delete view (no \<open>has_delete_permission\<close>, no
  \<open>disable_action\<close>), and an inline shows its delete boxes when \<open>can_delete\<close> holds.
  What a delete takes along is decided by the \<open>on_delete\<close> argument of each foreign key,
  which \<open>models.py\<close> declares; it is a parameter here, one rule per key field. \<open>KEEP\<close>
  stands for the rules that leave the referring row in the table (\<open>SET_NULL\<close>,
  \<open>SET_DEFAULT\<close>, \<open>SET\<close>, \<open>DO_NOTHING\<close>); what such a rule writes into the key field of
  the kept row is not modelled, and no statement below reads it. The side of the one-to-one
  link of Run and ARK that holds no key has the rule \<open>KEEP\<close>.
\<close>

datatype on_delete = CASCADE | PROTECT | RESTRICT | KEEP

type_synonym rules = "string \<times> string \<Rightarrow> on_delete"

text \<open>A row of the database, named by its table and key.\<close>

datatype obj =
    MeshObj pk | ContributorObj pk | ContributionObj pk | ImageObj pk | RunObj pk
  | ARKObj string

definition all_objs :: "db \<Rightarrow> obj list" where
  "all_objs s =
     map (\<lambda>r. MeshObj (Mesh.ID r)) (meshes s) @
     map (\<lambda>r. ContributorObj (Contributor.ID r)) (contributor_rows s) @
     map (\<lambda>r. ContributionObj (Contribution.ID r)) (contributions s) @
     map (\<lambda>r. ImageObj (Image.ID r)) (image_rows s) @
     map (\<lambda>r. RunObj (Run.ID r)) (runs s) @
     map (\<lambda>r. ARKObj (ARK.ark r)) (arks s)"

text \<open>
  The rows that hold the key of a row through a key field with the rule \<open>d\<close>. The key
  fields are the ones \<open>admin.py\<close> follows: \<open>mesh\<close> and \<open>contributor\<close> of a Contribution,
  \<open>contribution\<close> of an Image, \<open>mesh\<close> and \<open>ark\<close> of a Run, \<open>run\<close> of an ARK.
\<close>

fun referrers :: "rules \<Rightarrow> on_delete \<Rightarrow> db \<Rightarrow> obj \<Rightarrow> obj list" where
  "referrers rl d s (MeshObj k) =
     [ContributionObj (Contribution.ID c). c \<leftarrow> contributions s,
        Contribution.mesh c = k \<and> rl (''Contribution'', ''mesh'') = d] @
     [RunObj (Run.ID r). r \<leftarrow> runs s, Run.mesh r = k \<and> rl (''Run'', ''mesh'') = d]"
| "referrers rl d s (ContributorObj k) =
     [ContributionObj (Contribution.ID c). c \<leftarrow> contributions s,
        contributor c = k \<and> rl (''Contribution'', ''contributor'') = d]"
| "referrers rl d s (ContributionObj k) =
     [ImageObj (Image.ID i). i \<leftarrow> image_rows s,
        contribution i = k \<and> rl (''Image'', ''contribution'') = d]"
| "referrers rl d s (ImageObj k) = []"
| "referrers rl d s (RunObj k) =
     [ARKObj (ARK.ark a). a \<leftarrow> arks s, ARK.run a = k \<and> rl (''ARK'', ''run'') = d]"
| "referrers rl d s (ARKObj k) =
     [RunObj (Run.ID r). r \<leftarrow> runs s, Run.ark r = Some k \<and> rl (''Run'', ''ark'') = d]"

text \<open>
  Django's collector: starting from the rows to delete, it takes along every row that
  refers to a collected row through a \<open>CASCADE\<close> key, until no new row turns up.
\<close>

definition fresh_referrers :: "rules \<Rightarrow> db \<Rightarrow> obj list \<Rightarrow> obj list" where
  "fresh_referrers rl s seen =
     remdups (filter (\<lambda>x. x \<notin> set seen) (concat (map (referrers rl CASCADE s) seen)))"

function collect :: "rules \<Rightarrow> db \<Rightarrow> obj list \<Rightarrow> obj list" where
  "collect rl s seen =
     (if fresh_referrers rl s seen = [] then seen
      else collect rl s (seen @ fresh_referrers rl s seen))"
  by pat_completeness auto
termination
proof (relation "measure (\<lambda>(rl, s, seen). length (filter (\<lambda>x. x \<notin> set seen) (all_objs s)))")
  show "wf (measure (\<lambda>(rl, s, seen). length (filter (\<lambda>x. x \<notin> set seen) (all_objs s))))"
    by simp
next
  fix rl :: rules and s :: db and seen :: "obj list"
  assume more: "fresh_referrers rl s seen \<noteq> []"
  have present: "set (referrers rl d s x) \<subseteq> set (all_objs s)" for d x
    by (cases x) (auto simp: all_objs_def)
  from more obtain y where y: "y \<in> set (fresh_referrers rl s seen)"
    by (cases "fresh_referrers rl s seen") auto
  then have "y \<notin> set seen" and "y \<in> set (all_objs s)"
    using present by (auto simp: fresh_referrers_def)
  then have y': "y \<in> set (filter (\<lambda>x. x \<notin> set seen) (all_objs s))"
    by simp
  have "filter (\<lambda>x. x \<notin> set (seen @ fresh_referrers rl s seen)) (all_objs s) =
          filter (\<lambda>x. x \<notin> set (fresh_referrers rl s seen))
            (filter (\<lambda>x. x \<notin> set seen) (all_objs s))"
    by (auto intro: filter_cong)
  moreover have "length (filter (\<lambda>x. x \<notin> set (fresh_referrers rl s seen))
                   (filter (\<lambda>x. x \<notin> set seen) (all_objs s)))
                 < length (filter (\<lambda>x. x \<notin> set seen) (all_objs s))"
    using y' y by (intro length_filter_less [of y]) simp_all
  ultimately
  show "((rl, s, seen @ fresh_referrers rl s seen), (rl, s, seen))
          \<in> measure (\<lambda>(rl, s, seen). length (filter (\<lambda>x. x \<notin> set seen) (all_objs s)))"
    by simp
qed

declare collect.simps [simp del]

text \<open>
  The delete is refused when a row refers to a collected row through a \<open>PROTECT\<close> key, or
  through a \<open>RESTRICT\<close> key without being collected itself. Otherwise the collected rows
  leave their tables, and with an Image or a Contributor its rows in the \<open>through\<close> tables
  of \<open>Run.images\<close> and \<open>Run.contributors\<close>, which always cascade.
\<close>

definition blocked :: "rules \<Rightarrow> db \<Rightarrow> obj list \<Rightarrow> bool" where
  "blocked rl s seen =
     list_ex (\<lambda>x. referrers rl PROTECT s x \<noteq> [] \<or>
                  list_ex (\<lambda>y. y \<notin> set seen) (referrers rl RESTRICT s x)) seen"

definition delete_collected :: "obj list \<Rightarrow> db \<Rightarrow> db" where
  "delete_collected seen s =
     s\<lparr>meshes := filter (\<lambda>r. MeshObj (Mesh.ID r) \<notin> set seen) (meshes s),
       contributor_rows :=
         filter (\<lambda>r. ContributorObj (Contributor.ID r) \<notin> set seen) (contributor_rows s),
       contributions :=
         filter (\<lambda>r. ContributionObj (Contribution.ID r) \<notin> set seen) (contributions s),
       image_rows := filter (\<lambda>r. ImageObj (Image.ID r) \<notin> set seen) (image_rows s),
       runs :=
         map (\<lambda>r. r\<lparr>images := filter (\<lambda>k. ImageObj k \<notin> set seen) (images r),
                      contributors :=
                        filter (\<lambda>k. ContributorObj k \<notin> set seen) (contributors r)\<rparr>)
           (filter (\<lambda>r. RunObj (Run.ID r) \<notin> set seen) (runs s)),
       arks := filter (\<lambda>r. ARKObj (ARK.ark r) \<notin> set seen) (arks s)\<rparr>"

definition delete_objs :: "rules \<Rightarrow> obj list \<Rightarrow> db \<Rightarrow> db" where
  "delete_objs rl start s =
     (if blocked rl s (collect rl s start) then s
      else delete_collected (collect rl s start) s)"


definition inline_can_delete :: "model_admin \<Rightarrow> string \<Rightarrow> bool" where
  "inline_can_delete a m =
     list_ex (\<lambda>i. inline_admin.model i = m \<and> can_delete i) (inlines a)"

definition inline_delete_contributions_of_mesh ::
  "model_admin \<Rightarrow> rules \<Rightarrow> pk \<Rightarrow> (Contribution \<Rightarrow> bool) \<Rightarrow> db \<Rightarrow> db" where
  "inline_delete_contributions_of_mesh a rl k ticked s =
     (if inline_can_delete a ''Contribution''
      then delete_objs rl
             [ContributionObj (Contribution.ID c). c \<leftarrow> contributions s,
                Contribution.mesh c = k \<and> ticked c] s
      else s)"


definition inline_delete_contributions_of_contributor ::
  "model_admin \<Rightarrow> rules \<Rightarrow> pk \<Rightarrow> (Contribution \<Rightarrow> bool) \<Rightarrow> db \<Rightarrow> db" where
  "inline_delete_contributions_of_contributor a rl k ticked s =
     (if inline_can_delete a ''Contribution''
      then delete_objs rl
             [ContributionObj (Contribution.ID c). c \<leftarrow> contributions s,
                contributor c = k \<and> ticked c] s
      else s)"

definition inline_delete_images_of_contribution ::
  "model_admin \<Rightarrow> rules \<Rightarrow> pk \<Rightarrow> (Image \<Rightarrow> bool) \<Rightarrow> db \<Rightarrow> db" where
  "inline_delete_images_of_contribution a rl k ticked s =
     (if inline_can_delete a ''Image''
      then delete_objs rl
             [ImageObj (Image.ID i). i \<leftarrow> image_rows s, contribution i = k \<and> ticked i] s
      else s)"


section \<open>The operations of the admin site\<close>

text \<open>
  Every operation the site offers: the edit operations; \<open>delete_selected\<close> on a queryset
  of each model (the delete view of one object is the queryset of its key); the delete
  boxes of the three attached inlines; and the add view of each model. The row of an add
  view is the new row as the form and the defaults of the model make it; it is stored
  under a key that is not in use. The add forms of Contribution, Image and Run have no
  field for the mesh, the contributor or the contribution of the new row, keys that the
  columns of \<open>admin.py\<close> read without a check for a missing value; a row without them is
  no row of these tables, and these three add views store nothing.
\<close>

datatype site_op =
    Edit admin_op
  | Delete_Mesh "Mesh \<Rightarrow> bool"
  | Delete_Contributor "Contributor \<Rightarrow> bool"
  | Delete_Contribution "Contribution \<Rightarrow> bool"
  | Delete_Image "Image \<Rightarrow> bool"
  | Delete_Run "Run \<Rightarrow> bool"
  | Delete_ARK "ARK \<Rightarrow> bool"
  | Inline_delete_Contribution_of_Mesh pk "Contribution \<Rightarrow> bool"
  | Inline_delete_Contribution_of_Contributor pk "Contribution \<Rightarrow> bool"
  | Inline_delete_Image_of_Contribution pk "Image \<Rightarrow> bool"
  | Add_Mesh Mesh
  | Add_Contributor Contributor
  | Add_Contribution Contribution
  | Add_Image Image
  | Add_Run Run
  | Add_ARK ARK

fun site_apply :: "rules \<Rightarrow> site_op \<Rightarrow> db \<Rightarrow> db" where
  "site_apply rl (Edit op) s = admin_apply op s"
| "site_apply rl (Delete_Mesh q) s =
     delete_objs rl (map (\<lambda>r. MeshObj (Mesh.ID r)) (filter q (meshes s))) s"
| "site_apply rl (Delete_Contributor q) s =
     delete_objs rl (map (\<lambda>r. ContributorObj (Contributor.ID r)) (filter q (contributor_rows s))) s"
| "site_apply rl (Delete_Contribution q) s =
     delete_objs rl (map (\<lambda>r. ContributionObj (Contribution.ID r)) (filter q (contributions s))) s"
| "site_apply rl (Delete_Image q) s =
     delete_objs rl (map (\<lambda>r. ImageObj (Image.ID r)) (filter q (image_rows s))) s"
| "site_apply rl (Delete_Run q) s =
     delete_objs rl (map (\<lambda>r. RunObj (Run.ID r)) (filter q (runs s))) s"
| "site_apply rl (Delete_ARK q) s =
     delete_objs rl (map (\<lambda>r. ARKObj (ARK.ark r)) (filter q (arks s))) s"
| "site_apply rl (Inline_delete_Contribution_of_Mesh k ticked) s =
     inline_delete_contributions_of_mesh MeshAdmin rl k ticked s"
| "site_apply rl (Inline_delete_Contribution_of_Contributor k ticked) s =
     inline_delete_contributions_of_contributor ContributorAdmin rl k ticked s"
| "site_apply rl (Inline_delete_Image_of_Contribution k ticked) s =
     inline_delete_images_of_contribution ContributionAdmin rl k ticked s"
| "site_apply rl (Add_Mesh row) s =
     (if Mesh.ID row \<in> set (map Mesh.ID (meshes s)) then s
      else s\<lparr>meshes := meshes s @ [row]\<rparr>)"
| "site_apply rl (Add_Contributor row) s =
     (if Contributor.ID row \<in> set (map Contributor.ID (contributor_rows s)) then s
      else s\<lparr>contributor_rows := contributor_rows s @ [row]\<rparr>)"
| "site_apply rl (Add_Contribution row) s = s"
| "site_apply rl (Add_Image row) s = s"
| "site_apply rl (Add_Run row) s = s"
| "site_apply rl (Add_ARK row) s =
     (if ARK.ark row \<in> set (map ARK.ark (arks s)) then s
      else s\<lparr>arks := arks s @ [row]\<rparr>)"

text \<open>
  The key of an ARK and the fields that the ARK change form shows read-only, without the
  link to the Run.
\<close>

definition ARK_read_only ::
  "ARK \<Rightarrow> string \<times> string \<times> string \<times> string \<times> timestamp \<times> string \<times> string" where
  "ARK_read_only a =
     (ARK.ark a, naan a, shoulder a, assigned_name a, ARK.created_at a, url a, metadata a)"




section \<open>The run state machine of the specification\<close>

text \<open>
  Modelled from the spec: the Input Selector (\<open>select\<close>) and the four operations of the Run
  State Machine (\<open>createRun\<close>, \<open>transitionToRunning\<close>, \<open>complete\<close>, \<open>fail\<close>) are not in
  \<open>admin.py\<close>; the definitions of this section follow sections 4.1, 4.2 and 5 of the
  specification. Each operation is one atomic step on the database (the specification has
  the active-run guard checked and set atomically), and returns the error or the new state.
\<close>

text \<open>
  Modelled from the spec: the errors of the taxonomy that the four operations can return.
\<close>

datatype error = ConflictError | EmptyInputError | InvalidTransitionError

text \<open>
  Modelled from the spec: a Run is active while it is queued or running; a mesh is taken
  while one of its runs is active.
\<close>

definition active :: "Run \<Rightarrow> bool" where
  "active r = (Run.status r = Queued \<or> Run.status r = Running)"

definition has_active_run :: "db \<Rightarrow> pk \<Rightarrow> bool" where
  "has_active_run s m = list_ex (\<lambda>r. Run.mesh r = m \<and> active r) (runs s)"

text \<open>
  Modelled from the spec: a contributor is banned when the row with that key has the
  \<open>banned\<close> flag.
\<close>

definition contributor_banned :: "db \<Rightarrow> pk \<Rightarrow> bool" where
  "contributor_banned s k = list_ex (\<lambda>u. Contributor.ID u = k \<and> banned u) (contributor_rows s)"

text \<open>
  Modelled from the spec: an image is eligible when its contribution is processed, its
  contributor is not banned and its label is \<open>good\<close>; the selection is ordered by
  (\<open>contribution.contributed_at\<close>, \<open>image.created_at\<close>) ascending and may be empty.
\<close>

definition eligible :: "db \<Rightarrow> pk \<Rightarrow> (Image \<times> Contribution) list" where
  "eligible s m =
     [(i, c). i \<leftarrow> image_rows s, c \<leftarrow> contributions s,
              Image.contribution i = Contribution.ID c \<and> Contribution.mesh c = m \<and>
              processed c \<and> \<not> contributor_banned s (contributor c) \<and> label i = ''good'']"

definition selected :: "db \<Rightarrow> pk \<Rightarrow> (Image \<times> Contribution) list" where
  "selected s m = sort_key (\<lambda>(i, c). (contributed_at c, Image.created_at i)) (eligible s m)"

definition select :: "db \<Rightarrow> pk \<Rightarrow> pk list" where
  "select s m = map (\<lambda>(i, c). Image.ID i) (selected s m)"

text \<open>
  Modelled from the spec: the key of a new Run, which the specification leaves open; here
  the successor of the largest key in use.
\<close>

definition fresh_run_pk :: "Run list \<Rightarrow> pk" where
  "fresh_run_pk rs = Suc (fold max (map Run.ID rs) 0)"

text \<open>
  Modelled from the spec: \<open>createRun\<close> fails with \<open>ConflictError\<close> if the mesh has an active
  run, else snapshots the selection, fails with \<open>EmptyInputError\<close> if it is empty, else
  persists a new queued Run with the frozen image and contributor set and
  \<open>started_at = now\<close>.
\<close>

definition createRun :: "db \<Rightarrow> pk \<Rightarrow> timestamp \<Rightarrow> error + db" where
  "createRun s m now =
     (if has_active_run s m then Inl ConflictError
      else let sel = selected s m in
        if sel = [] then Inl EmptyInputError
        else Inr (s\<lparr>runs := runs s @
               [\<lparr>Run.ID = fresh_run_pk (runs s), ark = None, mesh = m, status = Queued,
                 started_at = now, ended_at = None, directory = [],
                 rotaZ = 0, rotaX = 0, rotaY = 0,
                 images = map (\<lambda>(i, c). Image.ID i) sel,
                 contributors = remdups (map (\<lambda>(i, c). contributor c) sel)\<rparr>]\<rparr>))"

text \<open>
  Modelled from the spec: the Run with key \<open>rid\<close> is the row that \<open>find\<close> returns, the first one with that key
  (a primary key is unique); \<open>update_run\<close> rewrites that row and no other.
\<close>

fun update_row :: "('r \<Rightarrow> bool) \<Rightarrow> ('r \<Rightarrow> 'r) \<Rightarrow> 'r list \<Rightarrow> 'r list" where
  "update_row P f [] = []"
| "update_row P f (r # rs) = (if P r then f r # rs else r # update_row P f rs)"

definition update_run :: "pk \<Rightarrow> (Run \<Rightarrow> Run) \<Rightarrow> db \<Rightarrow> db" where
  "update_run rid f s = s\<lparr>runs := update_row (\<lambda>r. Run.ID r = rid) f (runs s)\<rparr>"

text \<open>
  Modelled from the spec: \<open>transitionToRunning\<close> is allowed from \<open>queued\<close>, a no-op on a
  running Run, and an \<open>InvalidTransitionError\<close> otherwise (also for an unknown Run).
  \<open>complete\<close> is allowed from \<open>running\<close> and sets \<open>succeeded\<close>, \<open>ended_at\<close> and the
  artifact reference; \<open>fail\<close> is allowed from \<open>queued\<close> and \<open>running\<close> and sets \<open>failed\<close>
  and \<open>ended_at\<close>. Both callbacks return success without a transition on a Run that is
  already terminal. Minting and the recorded failure reason write no field of a Run that
  the guard of \<open>createRun\<close> reads; they fall under the rule \<open>other\<close> of \<open>reachable\<close>.
\<close>

definition transitionToRunning :: "db \<Rightarrow> pk \<Rightarrow> error + db" where
  "transitionToRunning s rid =
     (case find (\<lambda>r. Run.ID r = rid) (runs s) of
        None \<Rightarrow> Inl InvalidTransitionError
      | Some r \<Rightarrow>
          (case Run.status r of
             Queued \<Rightarrow> Inr (update_run rid (\<lambda>r. r\<lparr>Run.status := Running\<rparr>) s)
           | Running \<Rightarrow> Inr s
           | _ \<Rightarrow> Inl InvalidTransitionError))"

definition complete :: "db \<Rightarrow> pk \<Rightarrow> string \<Rightarrow> timestamp \<Rightarrow> error + db" where
  "complete s rid artifactRef now =
     (case find (\<lambda>r. Run.ID r = rid) (runs s) of
        None \<Rightarrow> Inl InvalidTransitionError
      | Some r \<Rightarrow>
          (case Run.status r of
             Running \<Rightarrow>
               Inr (update_run rid
                      (\<lambda>r. r\<lparr>Run.status := Succeeded, ended_at := Some now,
                              directory := artifactRef\<rparr>) s)
           | Queued \<Rightarrow> Inl InvalidTransitionError
           | _ \<Rightarrow> Inr s))"

definition fail :: "db \<Rightarrow> pk \<Rightarrow> string \<Rightarrow> timestamp \<Rightarrow> error + db" where
  "fail s rid reason now =
     (case find (\<lambda>r. Run.ID r = rid) (runs s) of
        None \<Rightarrow> Inl InvalidTransitionError
      | Some r \<Rightarrow>
          (if active r
           then Inr (update_run rid (\<lambda>r. r\<lparr>Run.status := Failed, ended_at := Some now\<rparr>) s)
           else Inr s))"

text \<open>
  Modelled from the spec: the states the system can reach from a database without runs:
  by the four operations, by every operation of the admin site under whatever \<open>on_delete\<close>
  rules, and by any other write (contributions arriving, the minter storing an ARK and
  stamping the mesh) that leaves the mesh and the status of every Run as they are.
\<close>

inductive reachable :: "db \<Rightarrow> bool" where
  init: "runs s = [] \<Longrightarrow> reachable s"
| created: "reachable s \<Longrightarrow> createRun s m now = Inr s' \<Longrightarrow> reachable s'"
| started: "reachable s \<Longrightarrow> transitionToRunning s rid = Inr s' \<Longrightarrow> reachable s'"
| completed: "reachable s \<Longrightarrow> complete s rid artifactRef now = Inr s' \<Longrightarrow> reachable s'"
| failed: "reachable s \<Longrightarrow> fail s rid reason now = Inr s' \<Longrightarrow> reachable s'"
| site: "reachable s \<Longrightarrow> reachable (site_apply rl op s)"
| other: "reachable s \<Longrightarrow> map Run.mesh (runs s') = map Run.mesh (runs s) \<Longrightarrow>
          map Run.status (runs s') = map Run.status (runs s) \<Longrightarrow> reachable s'"

text \<open>Modelled from the spec: the invariant of a Run; no two active runs share a mesh.\<close>

definition at_most_one_active :: "db \<Rightarrow> bool" where
  "at_most_one_active s = distinct (map Run.mesh (filter active (runs s)))"

text \<open>
  Modelled from the spec: a race of several \<open>createRun\<close> calls on one mesh. The guard
  serialises the calls, so the race is the calls run one after the other in the order the
  guard admits them, each with its own clock reading. The result lists, per call, the error
  or the success.
\<close>

fun race :: "db \<Rightarrow> pk \<Rightarrow> timestamp list \<Rightarrow> (error + unit) list \<times> db" where
  "race s m [] = ([], s)"
| "race s m (now # nows) =
     (case createRun s m now of
        Inl e \<Rightarrow> (Inl e # fst (race s m nows), snd (race s m nows))
      | Inr s' \<Rightarrow> (Inr () # fst (race s' m nows), snd (race s' m nows)))"

text \<open>
  Modelled from the spec: an image is referenced by a completed Run's commitment when a
  succeeded Run that has an ARK lists the image in its frozen image set.
\<close>

definition referenced_by_completed_run :: "db \<Rightarrow> Image \<Rightarrow> bool" where
  "referenced_by_completed_run s i =
     list_ex (\<lambda>r. Run.status r = Succeeded \<and> Image.ID i \<in> set (images r) \<and>
                   list_ex (\<lambda>a. ARK.run a = Run.ID r) (arks s)) (runs s)"


section \<open>A sample database\<close>

text \<open>
  One mesh with a processed contribution of three images (two good, one bad) by a
  contributor in good standing, a second mesh without contributions, and one succeeded Run
  of the first mesh over the two good images, with its ARK.
\<close>

definition mesh1 :: Mesh where
  "mesh1 =
     \<lparr>Mesh.ID = 1, verbose_id = ''2023-01-01__Temple'', created_at = 100, updated_at = 100,
      reconstructed_at = None, status = ''Live'', completed = False, hidden = False,
      name = ''Temple'', country = ''India'', state = ''Odisha'', district = ''Khordha'',
      description = ''A temple'', center_image = ''c.jpg'', denoise = False,
      rotaZ = 0, rotaX = 0, rotaY = 0, minObsAng = 30, orientMesh = ''0deg 0deg 0deg'',
      thumbnail = ''thumb1.jpg'', preview = ''prev1.jpg''\<rparr>"

definition mesh2 :: Mesh where
  "mesh2 = mesh1\<lparr>Mesh.ID := 2, verbose_id := ''2023-01-02__Stepwell'', hidden := True\<rparr>"

definition contributor1 :: Contributor where
  "contributor1 =
     \<lparr>Contributor.ID = 1, created_at = 90, updated_at = 90, name = ''A'',
      email = ''a@example.org'', banned = False, ban_reason = []\<rparr>"

definition contributor2 :: Contributor where
  "contributor2 = contributor1\<lparr>Contributor.ID := 2, banned := True\<rparr>"

definition contribution1 :: Contribution where
  "contribution1 =
     \<lparr>Contribution.ID = 1, mesh = 1, contributor = 1, contributed_at = 110,
      processed = True, processed_at = Some 120\<rparr>"

definition image1 :: Image where
  "image1 =
     \<lparr>Image.ID = 1, contribution = 1, created_at = 111, image_file = ''1.jpg'',
      label = ''good'', remark = []\<rparr>"

definition image2 :: Image where
  "image2 = image1\<lparr>Image.ID := 2, Image.created_at := 112, image_file := ''2.jpg''\<rparr>"

definition image3 :: Image where
  "image3 = image1\<lparr>Image.ID := 3, Image.created_at := 113, image_file := ''3.jpg'',
                    label := ''bad''\<rparr>"

definition run1 :: Run where
  "run1 =
     \<lparr>Run.ID = 1, ark = Some ''ark:/12345/t1abc'', mesh = 1, status = Succeeded,
      started_at = 130, ended_at = Some 140, directory = ''runs/1'',
      rotaZ = 0, rotaX = 0, rotaY = 0, images = [1, 2], contributors = [1]\<rparr>"

definition ark1 :: ARK where
  "ark1 =
     \<lparr>ARK.ark = ''ark:/12345/t1abc'', run = 1, naan = ''12345'', shoulder = ''t1'',
      assigned_name = ''abc'', created_at = 141, url = ''https://example.org/ark'',
      metadata = ''{}'', commitment = ''c0ffee''\<rparr>"

definition sample_db :: db where
  "sample_db =
     \<lparr>meshes = [mesh1, mesh2], contributor_rows = [contributor1, contributor2],
      contributions = [contribution1], image_rows = [image1, image2, image3],
      runs = [run1], arks = [ark1]\<rparr>"

definition fresh_db :: db where
  "fresh_db = sample_db\<lparr>runs := [], arks := []\<rparr>"


section \<open>Facts about \<open>update\<close> and the messages\<close>

lemma queryset_update_rows:
  "fst (queryset_update q f tbl) = map (\<lambda>r. if q r then f r else r) tbl"
  by (simp add: queryset_update_def)

lemma queryset_update_count:
  "snd (queryset_update q f tbl) = length (filter q tbl)"
  by (simp add: queryset_update_def)

lemma percent_d_head: "percent_d (CHR ''%'' # CHR ''d'' # cs) n = str_nat n @ cs"
  by simp

lemma mark_completed_rows:
  "fst (mark_completed q tbl) = map (\<lambda>r. if q r then r\<lparr>completed := True\<rparr> else r) tbl"
  by (simp add: mark_completed_def queryset_update_def)

lemma mark_incomplete_rows:
  "fst (mark_incomplete q tbl) = map (\<lambda>r. if q r then r\<lparr>completed := False\<rparr> else r) tbl"
  by (simp add: mark_incomplete_def queryset_update_def)

lemma mark_hidden_rows:
  "fst (mark_hidden q tbl) = map (\<lambda>r. if q r then r\<lparr>hidden := True\<rparr> else r) tbl"
  by (simp add: mark_hidden_def queryset_update_def)

lemma mark_not_hidden_rows:
  "fst (mark_not_hidden q tbl) = map (\<lambda>r. if q r then r\<lparr>hidden := False\<rparr> else r) tbl"
  by (simp add: mark_not_hidden_def queryset_update_def)

lemma ban_contributors_rows:
  "fst (ban_contributors q tbl) = map (\<lambda>r. if q r then r\<lparr>banned := True\<rparr> else r) tbl"
  by (simp add: ban_contributors_def queryset_update_def)

lemma unban_contributors_rows:
  "fst (unban_contributors q tbl) = map (\<lambda>r. if q r then r\<lparr>banned := False\<rparr> else r) tbl"
  by (simp add: unban_contributors_def queryset_update_def)

lemma mark_good_rows:
  "fst (mark_good q tbl) = map (\<lambda>r. if q r then r\<lparr>label := ''good''\<rparr> else r) tbl"
  by (simp add: mark_good_def queryset_update_def)

lemma mark_bad_rows:
  "fst (mark_bad q tbl) = map (\<lambda>r. if q r then r\<lparr>label := ''bad''\<rparr> else r) tbl"
  by (simp add: mark_bad_def queryset_update_def)

lemma mark_nsfw_rows:
  "fst (mark_nsfw q tbl) = map (\<lambda>r. if q r then r\<lparr>label := ''nsfw''\<rparr> else r) tbl"
  by (simp add: mark_nsfw_def queryset_update_def)

lemma mark_completed_text:
  "msg_text (snd (mark_completed q tbl)) =
     str_nat (length (filter q tbl)) @
       (if length (filter q tbl) = 1 then '' mesh was successfully marked as completed.''
        else '' meshes were successfully marked as completed.'')"
  by (simp add: mark_completed_def queryset_update_def message_user_def ngettext_def)

lemma mark_incomplete_text:
  "msg_text (snd (mark_incomplete q tbl)) =
     str_nat (length (filter q tbl)) @
       (if length (filter q tbl) = 1 then '' mesh was successfully marked as incomplete.''
        else '' meshes were successfully marked as incomplete.'')"
  by (simp add: mark_incomplete_def queryset_update_def message_user_def ngettext_def)

lemma mark_hidden_text:
  "msg_text (snd (mark_hidden q tbl)) =
     str_nat (length (filter q tbl)) @
       (if length (filter q tbl) = 1 then '' mesh was successfully marked as hidden.''
        else '' meshes were successfully marked as hidden.'')"
  by (simp add: mark_hidden_def queryset_update_def message_user_def ngettext_def)

lemma mark_not_hidden_text:
  "msg_text (snd (mark_not_hidden q tbl)) =
     str_nat (length (filter q tbl)) @
       (if length (filter q tbl) = 1 then '' mesh was successfully marked as not hidden.''
        else '' meshes were successfully marked as not hidden.'')"
  by (simp add: mark_not_hidden_def queryset_update_def message_user_def ngettext_def)

lemma ban_contributors_text:
  "msg_text (snd (ban_contributors q tbl)) =
     str_nat (length (filter q tbl)) @
       (if length (filter q tbl) = 1 then '' contributor was successfully banned.''
        else '' contributors were successfully banned.'')"
  by (simp add: ban_contributors_def queryset_update_def message_user_def ngettext_def)

lemma unban_contributors_text:
  "msg_text (snd (unban_contributors q tbl)) =
     str_nat (length (filter q tbl)) @
       (if length (filter q tbl) = 1 then '' contributor was successfully unbanned.''
        else '' contributors were successfully unbanned.'')"
  by (simp add: unban_contributors_def queryset_update_def message_user_def ngettext_def)

lemma join_row_count:
  "length (concat (map (\<lambda>c. if P c \<and> Q c then [i] else []) cs)) =
     sum_list (map (\<lambda>c. if P c then 1 else 0) (filter Q cs))"
  by (induction cs) auto

lemma join_count_by_parent:
  "length [i. i \<leftarrow> imgs, c \<leftarrow> cs, P i c \<and> Q c] =
     (\<Sum>c\<leftarrow>filter Q cs. length (filter (\<lambda>i. P i c) imgs))"
proof (induction imgs)
  case Nil
  then show ?case by simp
next
  case (Cons i imgs)
  have "(\<Sum>c\<leftarrow>filter Q cs. length (filter (\<lambda>i. P i c) (i # imgs))) =
        (\<Sum>c\<leftarrow>filter Q cs. (if P i c then 1 else 0) + length (filter (\<lambda>i. P i c) imgs))"
    by (rule arg_cong [where f = sum_list]) simp
  also have "\<dots> = (\<Sum>c\<leftarrow>filter Q cs. if P i c then 1 else 0) +
                   (\<Sum>c\<leftarrow>filter Q cs. length (filter (\<lambda>i. P i c) imgs))"
    by (simp add: sum_list_addf)
  finally show ?case
    using Cons.IH by (simp add: join_row_count)
qed


section \<open>Reading the number of a message\<close>

lemma below_ten: "d < 10 \<Longrightarrow> d \<in> {0, 1, 2, 3, 4, 5, 6, 7, 8, 9 :: nat}"
  by auto

lemma digit_props:
  assumes "d < 10"
  shows "is_digit (digit d)" and "digit_value (digit d) = d"
    and "digit d = CHR ''0'' \<longleftrightarrow> d = 0"
  using below_ten [OF assms]
  by (auto simp: digit_def is_digit_def digit_value_def)

lemma decimal_snoc: "decimal (cs @ [c]) = 10 * decimal cs + digit_value c"
  by (simp add: decimal_def)

lemma str_nat_nonempty: "str_nat n \<noteq> []"
  by (subst str_nat.simps) simp

lemma str_nat_digits: "list_all is_digit (str_nat n)"
proof (induction n rule: str_nat.induct)
  case (1 n)
  show ?case
  proof (cases "n < 10")
    case True
    then show ?thesis by (subst str_nat.simps) (simp add: digit_props)
  next
    case False
    with 1 show ?thesis by (subst str_nat.simps) (simp add: digit_props)
  qed
qed

lemma str_nat_decimal: "decimal (str_nat n) = n"
proof (induction n rule: str_nat.induct)
  case (1 n)
  show ?case
  proof (cases "n < 10")
    case True
    then show ?thesis by (subst str_nat.simps) (simp add: decimal_def digit_props)
  next
    case False
    with 1 show ?thesis by (subst str_nat.simps) (simp add: decimal_snoc digit_props)
  qed
qed

lemma str_nat_no_leading_zero: "hd (str_nat n) = CHR ''0'' \<Longrightarrow> str_nat n = ''0''"
proof (induction n rule: str_nat.induct)
  case (1 n)
  show ?case
  proof (cases "n < 10")
    case True
    with "1.prems" have "digit n = CHR ''0''"
      by (subst (asm) str_nat.simps) simp
    with True have "n = 0" by (simp add: digit_props)
    then show ?thesis by (subst str_nat.simps) (simp add: digit_def)
  next
    case False
    with "1.prems" have "hd (str_nat (n div 10)) = CHR ''0''"
      by (subst (asm) str_nat.simps) (simp add: str_nat_nonempty)
    with False "1.IH" have "str_nat (n div 10) = ''0''" by simp
    then have "decimal (str_nat (n div 10)) = 0" by (simp add: decimal_def digit_value_def)
    then have "n div 10 = 0" by (simp add: str_nat_decimal)
    with False show ?thesis by simp
  qed
qed

lemma reads_as_str_nat:
  assumes "\<not> is_digit c"
  shows "reads_as (str_nat n @ c # rest) n (c # rest)"
proof -
  have all: "\<forall>x\<in>set (str_nat n). is_digit x"
    using str_nat_digits [of n] by (simp add: list_all_iff)
  then have tw: "takeWhile is_digit (str_nat n @ c # rest) = str_nat n"
    using assms by (simp add: takeWhile_append2)
  have dw: "dropWhile is_digit (str_nat n @ c # rest) = c # rest"
    using all assms by (simp add: dropWhile_append2)
  have hd: "hd (str_nat n @ c # rest) = hd (str_nat n)"
    by (simp add: str_nat_nonempty)
  show ?thesis
    unfolding reads_as_def tw dw hd
    by (intro conjI impI str_nat_nonempty str_nat_decimal str_nat_no_leading_zero refl)
qed

lemma space_no_digit: "\<not> is_digit CHR '' ''"
  by (simp add: is_digit_def)


section \<open>The bulk actions: what they set, what they report, what they leave\<close>

text \<open>
  C5: each of the six flag actions sets its field on every row of its queryset:
  \<open>mark_completed\<close> and \<open>mark_incomplete\<close> set \<open>completed\<close> to true and to false,
  \<open>mark_hidden\<close> and \<open>mark_not_hidden\<close> set \<open>hidden\<close> to true and to false on every
  selected mesh, \<open>ban_contributors\<close> and \<open>unban_contributors\<close> set \<open>banned\<close> to true and
  to false on every selected contributor; the table keeps its rows. Each action reports the
  number of rows of its queryset: its message is the text that \<open>%d\<close> formatting makes of
  that number, followed by the singular wording for one row and the plural wording
  otherwise, and a reader who takes the leading digits of the message as a decimal numeral
  reads exactly that number, written without a leading zero.
\<close>

theorem flag_actions_set_their_field:
  fixes qm :: "Mesh \<Rightarrow> bool" and qc :: "Contributor \<Rightarrow> bool"
  shows
  "length (fst (mark_completed qm ms)) = length ms \<and>
   length (fst (mark_incomplete qm ms)) = length ms \<and>
   length (fst (mark_hidden qm ms)) = length ms \<and>
   length (fst (mark_not_hidden qm ms)) = length ms \<and>
   length (fst (ban_contributors qc cs)) = length cs \<and>
   length (fst (unban_contributors qc cs)) = length cs \<and>
   (\<forall>i<length ms. qm (ms ! i) \<longrightarrow>
      completed (fst (mark_completed qm ms) ! i) = True \<and>
      completed (fst (mark_incomplete qm ms) ! i) = False \<and>
      hidden (fst (mark_hidden qm ms) ! i) = True \<and>
      hidden (fst (mark_not_hidden qm ms) ! i) = False) \<and>
   (\<forall>i<length cs. qc (cs ! i) \<longrightarrow>
      banned (fst (ban_contributors qc cs) ! i) = True \<and>
      banned (fst (unban_contributors qc cs) ! i) = False) \<and>
   msg_text (snd (mark_completed qm ms)) =
     str_nat (count qm ms) @
       (if count qm ms = 1 then '' mesh was successfully marked as completed.''
        else '' meshes were successfully marked as completed.'') \<and>
   msg_text (snd (mark_incomplete qm ms)) =
     str_nat (count qm ms) @
       (if count qm ms = 1 then '' mesh was successfully marked as incomplete.''
        else '' meshes were successfully marked as incomplete.'') \<and>
   msg_text (snd (mark_hidden qm ms)) =
     str_nat (count qm ms) @
       (if count qm ms = 1 then '' mesh was successfully marked as hidden.''
        else '' meshes were successfully marked as hidden.'') \<and>
   msg_text (snd (mark_not_hidden qm ms)) =
     str_nat (count qm ms) @
       (if count qm ms = 1 then '' mesh was successfully marked as not hidden.''
        else '' meshes were successfully marked as not hidden.'') \<and>
   msg_text (snd (ban_contributors qc cs)) =
     str_nat (count qc cs) @
       (if count qc cs = 1 then '' contributor was successfully banned.''
        else '' contributors were successfully banned.'') \<and>
   msg_text (snd (unban_contributors qc cs)) =
     str_nat (count qc cs) @
       (if count qc cs = 1 then '' contributor was successfully unbanned.''
        else '' contributors were successfully unbanned.'') \<and>
   reads_as (msg_text (snd (mark_completed qm ms))) (count qm ms)
     (if count qm ms = 1 then '' mesh was successfully marked as completed.''
      else '' meshes were successfully marked as completed.'') \<and>
   reads_as (msg_text (snd (mark_incomplete qm ms))) (count qm ms)
     (if count qm ms = 1 then '' mesh was successfully marked as incomplete.''
      else '' meshes were successfully marked as incomplete.'') \<and>
   reads_as (msg_text (snd (mark_hidden qm ms))) (count qm ms)
     (if count qm ms = 1 then '' mesh was successfully marked as hidden.''
      else '' meshes were successfully marked as hidden.'') \<and>
   reads_as (msg_text (snd (mark_not_hidden qm ms))) (count qm ms)
     (if count qm ms = 1 then '' mesh was successfully marked as not hidden.''
      else '' meshes were successfully marked as not hidden.'') \<and>
   reads_as (msg_text (snd (ban_contributors qc cs))) (count qc cs)
     (if count qc cs = 1 then '' contributor was successfully banned.''
      else '' contributors were successfully banned.'') \<and>
   reads_as (msg_text (snd (unban_contributors qc cs))) (count qc cs)
     (if count qc cs = 1 then '' contributor was successfully unbanned.''
      else '' contributors were successfully unbanned.'')"
  unfolding count_def
  by (intro conjI allI impI)
     (simp_all only: mark_completed_rows mark_incomplete_rows mark_hidden_rows
        mark_not_hidden_rows ban_contributors_rows unban_contributors_rows
        mark_completed_text mark_incomplete_text mark_hidden_text mark_not_hidden_text
        ban_contributors_text unban_contributors_text length_map,
      simp_all add: reads_as_str_nat space_no_digit)

theorem flag_actions_set_their_field_witness:
  "completed (fst (mark_completed (\<lambda>r. Mesh.ID r = 1) (meshes sample_db)) ! 0) \<and>
   \<not> completed (fst (mark_incomplete (\<lambda>r. Mesh.ID r = 1) (meshes sample_db)) ! 0) \<and>
   hidden (fst (mark_hidden (\<lambda>r. Mesh.ID r = 1) (meshes sample_db)) ! 0) \<and>
   \<not> hidden (fst (mark_not_hidden (\<lambda>r. Mesh.ID r = 1) (meshes sample_db)) ! 0) \<and>
   banned (fst (ban_contributors (\<lambda>r. True) (contributor_rows sample_db)) ! 0) \<and>
   \<not> banned (fst (unban_contributors (\<lambda>r. True) (contributor_rows sample_db)) ! 0) \<and>
   msg_text (snd (mark_completed (\<lambda>r. Mesh.ID r = 1) (meshes sample_db))) =
     ''1 mesh was successfully marked as completed.'' \<and>
   msg_text (snd (ban_contributors (\<lambda>r. True) (contributor_rows sample_db))) =
     ''2 contributors were successfully banned.'' \<and>
   msg_text (snd (mark_hidden (\<lambda>r. True) (replicate 12 mesh1))) =
     ''12 meshes were successfully marked as hidden.'' \<and>
   reads_as (msg_text (snd (mark_hidden (\<lambda>r. True) (replicate 12 mesh1)))) 12
     '' meshes were successfully marked as hidden.''"
proof -
  note small = flag_actions_set_their_field
      [of "\<lambda>r. Mesh.ID r = 1" "meshes sample_db" "\<lambda>r. True" "contributor_rows sample_db"]
  note large = flag_actions_set_their_field
      [of "\<lambda>r. True" "replicate 12 mesh1" "\<lambda>r. True" "[]"]
  have twelve: "str_nat 12 = ''12''"
    by (simp add: str_nat.simps digit_def)
  from small have first:
    "completed (fst (mark_completed (\<lambda>r. Mesh.ID r = 1) (meshes sample_db)) ! 0) \<and>
     \<not> completed (fst (mark_incomplete (\<lambda>r. Mesh.ID r = 1) (meshes sample_db)) ! 0) \<and>
     hidden (fst (mark_hidden (\<lambda>r. Mesh.ID r = 1) (meshes sample_db)) ! 0) \<and>
     \<not> hidden (fst (mark_not_hidden (\<lambda>r. Mesh.ID r = 1) (meshes sample_db)) ! 0) \<and>
     banned (fst (ban_contributors (\<lambda>r. True) (contributor_rows sample_db)) ! 0) \<and>
     \<not> banned (fst (unban_contributors (\<lambda>r. True) (contributor_rows sample_db)) ! 0) \<and>
     msg_text (snd (mark_completed (\<lambda>r. Mesh.ID r = 1) (meshes sample_db))) =
       ''1 mesh was successfully marked as completed.'' \<and>
     msg_text (snd (ban_contributors (\<lambda>r. True) (contributor_rows sample_db))) =
       ''2 contributors were successfully banned.''"
    by (simp add: sample_db_def mesh1_def mesh2_def contributor1_def contributor2_def count_def
          str_nat.simps digit_def reads_as_def)
  have rows: "count (\<lambda>r. True) (replicate 12 mesh1) = 12"
    by (simp add: count_def)
  from large have
    "msg_text (snd (mark_hidden (\<lambda>r. True) (replicate 12 mesh1))) =
       str_nat (count (\<lambda>r. True) (replicate 12 mesh1)) @
         (if count (\<lambda>r. True) (replicate 12 mesh1) = 1
          then '' mesh was successfully marked as hidden.''
          else '' meshes were successfully marked as hidden.'')"
    and
    "reads_as (msg_text (snd (mark_hidden (\<lambda>r. True) (replicate 12 mesh1))))
       (count (\<lambda>r. True) (replicate 12 mesh1))
       (if count (\<lambda>r. True) (replicate 12 mesh1) = 1
        then '' mesh was successfully marked as hidden.''
        else '' meshes were successfully marked as hidden.'')"
    by blast+
  then have second:
    "msg_text (snd (mark_hidden (\<lambda>r. True) (replicate 12 mesh1))) =
       ''12 meshes were successfully marked as hidden.'' \<and>
     reads_as (msg_text (snd (mark_hidden (\<lambda>r. True) (replicate 12 mesh1)))) 12
       '' meshes were successfully marked as hidden.''"
    unfolding rows twelve by simp
  from first second show ?thesis by blast
qed

text \<open>
  C6: on every image of the queryset \<open>mark_good\<close> sets the label \<open>good\<close>, \<open>mark_bad\<close>
  sets \<open>bad\<close> and \<open>mark_nsfw\<close> sets \<open>nsfw\<close>; and whenever one of the three actions
  changes the label of a row, the new label is one of \<open>good\<close>, \<open>bad\<close>, \<open>nsfw\<close>.
\<close>

theorem moderation_actions_assign_ledger_labels:
  "length (fst (mark_good q imgs)) = length imgs \<and>
   length (fst (mark_bad q imgs)) = length imgs \<and>
   length (fst (mark_nsfw q imgs)) = length imgs \<and>
   (\<forall>i<length imgs.
      (q (imgs ! i) \<longrightarrow>
         label (fst (mark_good q imgs) ! i) = ''good'' \<and>
         label (fst (mark_bad q imgs) ! i) = ''bad'' \<and>
         label (fst (mark_nsfw q imgs) ! i) = ''nsfw'') \<and>
      (label (fst (mark_good q imgs) ! i) \<noteq> label (imgs ! i) \<longrightarrow>
         label (fst (mark_good q imgs) ! i) \<in> {''good'', ''bad'', ''nsfw''}) \<and>
      (label (fst (mark_bad q imgs) ! i) \<noteq> label (imgs ! i) \<longrightarrow>
         label (fst (mark_bad q imgs) ! i) \<in> {''good'', ''bad'', ''nsfw''}) \<and>
      (label (fst (mark_nsfw q imgs) ! i) \<noteq> label (imgs ! i) \<longrightarrow>
         label (fst (mark_nsfw q imgs) ! i) \<in> {''good'', ''bad'', ''nsfw''}))"
  by (simp add: mark_good_rows mark_bad_rows mark_nsfw_rows)

theorem moderation_actions_assign_ledger_labels_witness:
  "label (fst (mark_good (\<lambda>r. Image.ID r = 3) (image_rows sample_db)) ! 2) = ''good'' \<and>
   label (fst (mark_bad (\<lambda>r. Image.ID r = 3) (image_rows sample_db)) ! 2) = ''bad'' \<and>
   label (fst (mark_nsfw (\<lambda>r. Image.ID r = 3) (image_rows sample_db)) ! 2) = ''nsfw'' \<and>
   label (image_rows sample_db ! 2) = ''bad''"
  using moderation_actions_assign_ledger_labels
          [of "\<lambda>r. Image.ID r = 3" "image_rows sample_db"]
  by (simp add: sample_db_def image1_def image2_def image3_def)

text \<open>
  C8: every bulk action keeps the rows of its table in place, changes at most its target
  field on each of them (putting the old value of that field back gives the old row),
  leaves every row outside the queryset as it is, and leaves every other table of the
  database untouched.
\<close>

theorem bulk_actions_frame:
  fixes qm :: "Mesh \<Rightarrow> bool" and qc :: "Contributor \<Rightarrow> bool" and qi :: "Image \<Rightarrow> bool"
  shows
  "length (fst (mark_completed qm ms)) = length ms \<and>
   length (fst (mark_incomplete qm ms)) = length ms \<and>
   length (fst (mark_hidden qm ms)) = length ms \<and>
   length (fst (mark_not_hidden qm ms)) = length ms \<and>
   length (fst (ban_contributors qc cs)) = length cs \<and>
   length (fst (unban_contributors qc cs)) = length cs \<and>
   length (fst (mark_good qi imgs)) = length imgs \<and>
   length (fst (mark_bad qi imgs)) = length imgs \<and>
   length (fst (mark_nsfw qi imgs)) = length imgs \<and>
   (\<forall>i<length ms.
      (fst (mark_completed qm ms) ! i)\<lparr>completed := completed (ms ! i)\<rparr> = ms ! i \<and>
      (fst (mark_incomplete qm ms) ! i)\<lparr>completed := completed (ms ! i)\<rparr> = ms ! i \<and>
      (fst (mark_hidden qm ms) ! i)\<lparr>hidden := hidden (ms ! i)\<rparr> = ms ! i \<and>
      (fst (mark_not_hidden qm ms) ! i)\<lparr>hidden := hidden (ms ! i)\<rparr> = ms ! i \<and>
      (\<not> qm (ms ! i) \<longrightarrow>
         fst (mark_completed qm ms) ! i = ms ! i \<and>
         fst (mark_incomplete qm ms) ! i = ms ! i \<and>
         fst (mark_hidden qm ms) ! i = ms ! i \<and>
         fst (mark_not_hidden qm ms) ! i = ms ! i)) \<and>
   (\<forall>i<length cs.
      (fst (ban_contributors qc cs) ! i)\<lparr>banned := banned (cs ! i)\<rparr> = cs ! i \<and>
      (fst (unban_contributors qc cs) ! i)\<lparr>banned := banned (cs ! i)\<rparr> = cs ! i \<and>
      (\<not> qc (cs ! i) \<longrightarrow>
         fst (ban_contributors qc cs) ! i = cs ! i \<and>
         fst (unban_contributors qc cs) ! i = cs ! i)) \<and>
   (\<forall>i<length imgs.
      (fst (mark_good qi imgs) ! i)\<lparr>label := label (imgs ! i)\<rparr> = imgs ! i \<and>
      (fst (mark_bad qi imgs) ! i)\<lparr>label := label (imgs ! i)\<rparr> = imgs ! i \<and>
      (fst (mark_nsfw qi imgs) ! i)\<lparr>label := label (imgs ! i)\<rparr> = imgs ! i \<and>
      (\<not> qi (imgs ! i) \<longrightarrow>
         fst (mark_good qi imgs) ! i = imgs ! i \<and>
         fst (mark_bad qi imgs) ! i = imgs ! i \<and>
         fst (mark_nsfw qi imgs) ! i = imgs ! i)) \<and>
   (admin_apply (Action_mark_completed qm) s)\<lparr>meshes := meshes s\<rparr> = s \<and>
   (admin_apply (Action_mark_incomplete qm) s)\<lparr>meshes := meshes s\<rparr> = s \<and>
   (admin_apply (Action_mark_hidden qm) s)\<lparr>meshes := meshes s\<rparr> = s \<and>
   (admin_apply (Action_mark_not_hidden qm) s)\<lparr>meshes := meshes s\<rparr> = s \<and>
   (admin_apply (Action_ban_contributors qc) s)\<lparr>contributor_rows := contributor_rows s\<rparr> = s \<and>
   (admin_apply (Action_unban_contributors qc) s)\<lparr>contributor_rows := contributor_rows s\<rparr> = s \<and>
   (admin_apply (Action_mark_good qi) s)\<lparr>image_rows := image_rows s\<rparr> = s \<and>
   (admin_apply (Action_mark_bad qi) s)\<lparr>image_rows := image_rows s\<rparr> = s \<and>
   (admin_apply (Action_mark_nsfw qi) s)\<lparr>image_rows := image_rows s\<rparr> = s"
  by (simp add: mark_completed_rows mark_incomplete_rows mark_hidden_rows
        mark_not_hidden_rows ban_contributors_rows unban_contributors_rows
        mark_good_rows mark_bad_rows mark_nsfw_rows)

theorem bulk_actions_frame_witness:
  "fst (mark_hidden (\<lambda>r. Mesh.ID r = 1) (meshes sample_db)) ! 1 = mesh2 \<and>
   (fst (mark_hidden (\<lambda>r. Mesh.ID r = 1) (meshes sample_db)) ! 0)\<lparr>hidden := False\<rparr> = mesh1 \<and>
   fst (ban_contributors (\<lambda>r. Contributor.ID r = 1) (contributor_rows sample_db)) ! 1 =
     contributor2 \<and>
   (fst (ban_contributors (\<lambda>r. Contributor.ID r = 1) (contributor_rows sample_db)) ! 0)
     \<lparr>banned := False\<rparr> = contributor1 \<and>
   fst (mark_nsfw (\<lambda>r. Image.ID r = 3) (image_rows sample_db)) ! 0 = image1 \<and>
   (fst (mark_nsfw (\<lambda>r. Image.ID r = 3) (image_rows sample_db)) ! 2)\<lparr>label := ''bad''\<rparr> =
     image3"
  using bulk_actions_frame
          [of "\<lambda>r. Mesh.ID r = 1" "meshes sample_db"
              "\<lambda>r. Contributor.ID r = 1" "contributor_rows sample_db"
              "\<lambda>r. Image.ID r = 3" "image_rows sample_db" sample_db]
  by (simp add: sample_db_def mesh1_def mesh2_def contributor1_def contributor2_def
        image1_def image2_def image3_def mark_hidden_rows ban_contributors_rows mark_nsfw_rows)

section \<open>Facts about the computed columns\<close>

text \<open>
  C9: the image total of a mesh is the sum, over the contributions of that mesh, of the
  image count of each contribution; the image total of a contributor is the same sum over
  the contributions of that contributor.
\<close>

theorem image_count_decomposes:
  "MeshAdmin_image_count imgs cs m =
     (\<Sum>c\<leftarrow>Mesh_contributions cs m. ContributionAdmin_image_count imgs c) \<and>
   ContributorAdmin_image_count imgs cs u =
     (\<Sum>c\<leftarrow>Contributor_contributions cs u. ContributionAdmin_image_count imgs c)"
  unfolding MeshAdmin_image_count_def ContributorAdmin_image_count_def
    Mesh_contributions_def Contributor_contributions_def
    ContributionAdmin_image_count_def Contribution_images_def
  by (simp only: join_count_by_parent)

text \<open>
  C10: \<open>images_good_count\<close> of a contribution is the number of rows of the image table
  that belong to that contribution and carry the label \<open>good\<close>: an empty table counts
  zero, and a further image adds one exactly when it belongs to the contribution and is
  labelled \<open>good\<close>, and nothing otherwise.
\<close>

theorem images_good_count_exact:
  "ContributionAdmin_images_good_count imgs c =
     card {k. k < length imgs \<and> Image.contribution (imgs ! k) = Contribution.ID c \<and>
              label (imgs ! k) = ''good''} \<and>
   ContributionAdmin_images_good_count [] c = 0 \<and>
   ContributionAdmin_images_good_count (i # imgs) c =
     (if Image.contribution i = Contribution.ID c \<and> label i = ''good'' then 1 else 0) +
     ContributionAdmin_images_good_count imgs c"
proof -
  have flat: "ContributionAdmin_images_good_count xs c =
          length (filter (\<lambda>i. Image.contribution i = Contribution.ID c \<and> label i = ''good'') xs)"
    for xs
    by (simp add: ContributionAdmin_images_good_count_def Contribution_images_def conj_commute)
  have "ContributionAdmin_images_good_count imgs c =
     card {k. k < length imgs \<and> Image.contribution (imgs ! k) = Contribution.ID c \<and>
              label (imgs ! k) = ''good''}"
    unfolding flat by (rule length_filter_conv_card)
  moreover have "ContributionAdmin_images_good_count [] c = 0"
    unfolding flat by simp
  moreover have "ContributionAdmin_images_good_count (i # imgs) c =
     (if Image.contribution i = Contribution.ID c \<and> label i = ''good'' then 1 else 0) +
     ContributionAdmin_images_good_count imgs c"
    unfolding flat by simp
  ultimately show ?thesis by blast
qed


section \<open>What the change forms can edit\<close>

lemma change_view_map: "map f (change_view key save k tbl) = map f tbl"
  if "\<And>r. f (save r) = f r"
  using that by (simp add: change_view_def)

lemma form_fields_MeshAdmin:
  "form_fields MeshAdmin =
     [''status'', ''completed'', ''hidden'', ''name'', ''country'', ''state'', ''district'',
      ''description'', ''center_image'', ''denoise'', ''rotaZ'', ''rotaX'', ''rotaY'',
      ''minObsAng'', ''orientMesh'', ''thumbnail'', ''preview'']"
  by (simp add: form_fields_def MeshAdmin_def)

lemma form_fields_ContributorAdmin:
  "form_fields ContributorAdmin = [''name'', ''email'', ''banned'', ''ban_reason'']"
  by (simp add: form_fields_def ContributorAdmin_def)

lemma form_fields_ContributionAdmin: "form_fields ContributionAdmin = []"
  by (simp add: form_fields_def ContributionAdmin_def)

lemma form_fields_ImageAdmin: "form_fields ImageAdmin = [''label'', ''remark'']"
  by (simp add: form_fields_def ImageAdmin_def)

lemma form_fields_RunAdmin: "form_fields RunAdmin = [''rotaZ'', ''rotaX'', ''rotaY'']"
  by (simp add: form_fields_def RunAdmin_def)

lemma form_fields_ARKAdmin: "form_fields ARKAdmin = [''commitment'']"
  by (simp add: form_fields_def ARKAdmin_def)

lemma save_Mesh_eq:
  "save_Mesh posted obj =
     obj\<lparr>Mesh.status := Mesh.status posted, completed := completed posted,
         hidden := hidden posted, Mesh.name := Mesh.name posted, country := country posted,
         state := state posted, district := district posted,
         description := description posted, center_image := center_image posted,
         denoise := denoise posted, Mesh.rotaZ := Mesh.rotaZ posted,
         Mesh.rotaX := Mesh.rotaX posted, Mesh.rotaY := Mesh.rotaY posted,
         minObsAng := minObsAng posted, orientMesh := orientMesh posted,
         thumbnail := thumbnail posted, preview := preview posted\<rparr>"
  by (simp add: save_Mesh_def edited_def form_fields_MeshAdmin)

lemma save_Contributor_eq:
  "save_Contributor posted obj =
     obj\<lparr>Contributor.name := Contributor.name posted, email := email posted,
         banned := banned posted, ban_reason := ban_reason posted\<rparr>"
  by (simp add: save_Contributor_def edited_def form_fields_ContributorAdmin)

lemma save_Contribution_eq: "save_Contribution posted obj = obj"
  by (simp add: save_Contribution_def edited_def form_fields_ContributionAdmin)

lemma save_Image_eq:
  "save_Image posted obj = obj\<lparr>label := label posted, remark := remark posted\<rparr>"
  by (simp add: save_Image_def edited_def form_fields_ImageAdmin)

lemma inline_edits_RunAdmin:
  "inline_edits RunAdmin ''Run_images''" "inline_edits RunAdmin ''Run_contributors''"
  by (simp_all add: inline_edits_def RunAdmin_def ImageInlineRun_def ContributorInlineRun_def)

lemma save_Run_eq:
  "save_Run posted obj =
     obj\<lparr>Run.rotaZ := Run.rotaZ posted, Run.rotaX := Run.rotaX posted,
         Run.rotaY := Run.rotaY posted, images := images posted,
         contributors := contributors posted\<rparr>"
  by (simp add: save_Run_def edited_def form_fields_RunAdmin inline_edits_RunAdmin)

lemma save_ARK_eq: "save_ARK posted obj = obj\<lparr>commitment := commitment posted\<rparr>"
  by (simp add: save_ARK_def edited_def form_fields_ARKAdmin)

lemma admin_apply_runs_status:
  "map Run.status (runs (admin_apply op s)) = map Run.status (runs s)"
  by (cases op) (simp_all add: change_view_map save_Run_eq)

lemma admin_apply_runs_mesh:
  "map Run.mesh (runs (admin_apply op s)) = map Run.mesh (runs s)"
  by (cases op) (simp_all add: change_view_map save_Run_eq)

text \<open>
  C2, as claimed: no administrative operation changes any field of an ARK row. The change
  form of \<open>ARKAdmin\<close> refutes it: \<open>commitment\<close> is in \<open>fieldsets\<close> and not in
  \<open>readonly_fields\<close>, so saving the form of the sample ARK with another commitment stores
  the other commitment.
\<close>

theorem ark_commitment_editable_counterexample:
  "arks sample_db = [ark1] \<and> commitment ark1 = ''c0ffee'' \<and>
   arks (admin_apply (Change_ARK ''ark:/12345/t1abc'' (ark1\<lparr>commitment := ''forged''\<rparr>))
           sample_db) = [ark1\<lparr>commitment := ''forged''\<rparr>]"
  by (simp add: sample_db_def ark1_def change_view_def save_ARK_eq)

text \<open>
  C4, as claimed: no administrative operation changes \<open>reconstructed_at\<close>, \<open>preview\<close> or
  \<open>thumbnail\<close> of a mesh. The change form of \<open>MeshAdmin\<close> refutes it for two of the
  three: \<open>thumbnail\<close> and \<open>preview\<close> are in \<open>fieldsets\<close>, and only the display methods
  \<open>get_thumbnail\<close> and \<open>get_preview\<close> are read-only.
\<close>

theorem mesh_preview_thumbnail_editable_counterexample:
  "meshes sample_db = [mesh1, mesh2] \<and>
   preview mesh1 = ''prev1.jpg'' \<and> thumbnail mesh1 = ''thumb1.jpg'' \<and>
   map preview (meshes (admin_apply
       (Change_Mesh 1 (mesh1\<lparr>preview := ''new_prev.jpg'', thumbnail := ''new_thumb.jpg''\<rparr>))
       sample_db)) = [''new_prev.jpg'', ''prev1.jpg''] \<and>
   map thumbnail (meshes (admin_apply
       (Change_Mesh 1 (mesh1\<lparr>preview := ''new_prev.jpg'', thumbnail := ''new_thumb.jpg''\<rparr>))
       sample_db)) = [''new_thumb.jpg'', ''thumb1.jpg'']"
  by (simp add: sample_db_def mesh1_def mesh2_def change_view_def save_Mesh_eq)

text \<open>
  C4, amended: no change-form save and no bulk action changes \<open>reconstructed_at\<close> of any
  mesh; \<open>preview\<close> and \<open>thumbnail\<close> are editable in the change form of a mesh, and every
  other operation (each bulk action and the change form of every other model) leaves them
  unchanged on every mesh.
\<close>

theorem mesh_reconstruction_fields_under_admin:
  "map reconstructed_at (meshes (admin_apply op s)) = map reconstructed_at (meshes s) \<and>
   ((\<forall>k posted. op \<noteq> Change_Mesh k posted) \<longrightarrow>
      map preview (meshes (admin_apply op s)) = map preview (meshes s) \<and>
      map thumbnail (meshes (admin_apply op s)) = map thumbnail (meshes s))"
  by (cases op)
     (simp_all add: change_view_map save_Mesh_eq mark_completed_rows mark_incomplete_rows
        mark_hidden_rows mark_not_hidden_rows comp_def if_distrib cong: if_cong)

theorem mesh_reconstruction_fields_under_admin_witness:
  "map reconstructed_at (meshes (admin_apply (Action_mark_hidden (\<lambda>r. Mesh.ID r = 1)) sample_db)) =
     [None, None] \<and>
   map preview (meshes (admin_apply (Action_mark_hidden (\<lambda>r. Mesh.ID r = 1)) sample_db)) =
     [''prev1.jpg'', ''prev1.jpg''] \<and>
   map thumbnail (meshes (admin_apply (Action_mark_hidden (\<lambda>r. Mesh.ID r = 1)) sample_db)) =
     [''thumb1.jpg'', ''thumb1.jpg'']"
  using mesh_reconstruction_fields_under_admin
          [of "Action_mark_hidden (\<lambda>r. Mesh.ID r = 1)" sample_db]
  by (simp add: sample_db_def mesh1_def mesh2_def)

text \<open>
  C3, as claimed: a moderation operation leaves the label of an image unchanged once a
  completed Run's commitment references the image. The bulk actions have no such guard:
  the first image of the sample database is in the frozen set of the succeeded Run that
  holds the ARK, and \<open>mark_bad\<close> on a queryset with that image turns its label from
  \<open>good\<close> to \<open>bad\<close>.
\<close>

theorem label_of_committed_image_counterexample:
  "image_rows sample_db ! 0 = image1 \<and> label image1 = ''good'' \<and>
   referenced_by_completed_run sample_db image1 \<and>
   label (fst (mark_bad (\<lambda>r. Image.ID r = 1) (image_rows sample_db)) ! 0) = ''bad''"
  by (simp add: sample_db_def image1_def image2_def image3_def run1_def ark1_def
        referenced_by_completed_run_def mark_bad_rows)

text \<open>
  C3, amended: for every image row, referenced by a completed Run or not, a bulk label
  action sets the label of the row to the label of the action when the row is in the
  queryset and leaves the label unchanged when it is not, and saving the change form of an
  image sets the label of that image to the submitted label and leaves the label of every
  other image unchanged.
\<close>

theorem moderation_sets_label_of_selected_images:
  "i < length (image_rows s) \<Longrightarrow>
   (q (image_rows s ! i) \<longrightarrow>
      label (image_rows (admin_apply (Action_mark_good q) s) ! i) = ''good'' \<and>
      label (image_rows (admin_apply (Action_mark_bad q) s) ! i) = ''bad'' \<and>
      label (image_rows (admin_apply (Action_mark_nsfw q) s) ! i) = ''nsfw'') \<and>
   (\<not> q (image_rows s ! i) \<longrightarrow>
      label (image_rows (admin_apply (Action_mark_good q) s) ! i) = label (image_rows s ! i) \<and>
      label (image_rows (admin_apply (Action_mark_bad q) s) ! i) = label (image_rows s ! i) \<and>
      label (image_rows (admin_apply (Action_mark_nsfw q) s) ! i) = label (image_rows s ! i)) \<and>
   (Image.ID (image_rows s ! i) = k \<longrightarrow>
      label (image_rows (admin_apply (Change_Image k posted) s) ! i) = label posted) \<and>
   (Image.ID (image_rows s ! i) \<noteq> k \<longrightarrow>
      label (image_rows (admin_apply (Change_Image k posted) s) ! i) = label (image_rows s ! i))"
  by (simp add: mark_good_rows mark_bad_rows mark_nsfw_rows change_view_def save_Image_eq)

theorem moderation_sets_label_of_selected_images_witness:
  "referenced_by_completed_run sample_db (image_rows sample_db ! 0) \<and>
   label (image_rows sample_db ! 0) = ''good'' \<and>
   label (image_rows (admin_apply (Action_mark_nsfw (\<lambda>r. Image.ID r = 1)) sample_db) ! 0) = ''nsfw'' \<and>
   label (image_rows (admin_apply (Change_Image 1 (image1\<lparr>label := ''bad''\<rparr>)) sample_db) ! 0) = ''bad''"
  using moderation_sets_label_of_selected_images
          [of 0 sample_db "\<lambda>r. Image.ID r = 1" 1 "image1\<lparr>label := ''bad''\<rparr>"]
  by (simp add: sample_db_def image1_def image2_def image3_def run1_def ark1_def
        referenced_by_completed_run_def)


section \<open>Deleting and adding rows\<close>

lemma delete_objs_runs:
  "\<exists>keep g. runs (delete_objs rl start s) = map g (filter keep (runs s)) \<and>
      (\<forall>r. Run.ID (g r) = Run.ID r \<and> Run.mesh (g r) = Run.mesh r \<and>
           Run.status (g r) = Run.status r)"
proof (cases "blocked rl s (collect rl s start)")
  case True
  then have "runs (delete_objs rl start s) = map (\<lambda>r. r) (filter (\<lambda>r. True) (runs s))"
    by (simp add: delete_objs_def)
  then show ?thesis by blast
next
  case False
  then have "runs (delete_objs rl start s) =
      map (\<lambda>r. r\<lparr>images := filter (\<lambda>k. ImageObj k \<notin> set (collect rl s start)) (images r),
                   contributors :=
                     filter (\<lambda>k. ContributorObj k \<notin> set (collect rl s start)) (contributors r)\<rparr>)
        (filter (\<lambda>r. RunObj (Run.ID r) \<notin> set (collect rl s start)) (runs s))"
    by (simp add: delete_objs_def delete_collected_def)
  then show ?thesis
    by (intro exI conjI, assumption) simp
qed

lemma delete_objs_arks: "\<exists>keep. arks (delete_objs rl start s) = filter keep (arks s)"
proof (cases "blocked rl s (collect rl s start)")
  case True
  then have "arks (delete_objs rl start s) = filter (\<lambda>r. True) (arks s)"
    by (simp add: delete_objs_def)
  then show ?thesis by blast
next
  case False
  then show ?thesis
    by (auto simp: delete_objs_def delete_collected_def)
qed

lemma same_runs:
  "\<exists>keep g. runs s = map g (filter keep (runs s)) \<and>
      (\<forall>r. Run.ID (g r) = Run.ID r \<and> Run.mesh (g r) = Run.mesh r \<and>
           Run.status (g r) = Run.status r)"
proof -
  have "runs s = map (\<lambda>r. r) (filter (\<lambda>r. True) (runs s))" by simp
  then show ?thesis by blast
qed

lemma admin_apply_runs:
  "\<exists>keep g. runs (admin_apply op s) = map g (filter keep (runs s)) \<and>
      (\<forall>r. Run.ID (g r) = Run.ID r \<and> Run.mesh (g r) = Run.mesh r \<and>
           Run.status (g r) = Run.status r)"
proof (cases op)
  case (Change_Run k posted)
  then have "runs (admin_apply op s) =
      map (\<lambda>r. if Run.ID r = k then save_Run posted r else r) (filter (\<lambda>r. True) (runs s))"
    by (simp add: change_view_def)
  then show ?thesis
    by (intro exI conjI, assumption) (simp add: save_Run_eq)
qed (simp_all add: same_runs)

lemma site_apply_runs:
  "\<exists>keep g. runs (site_apply rl op s) = map g (filter keep (runs s)) \<and>
      (\<forall>r. Run.ID (g r) = Run.ID r \<and> Run.mesh (g r) = Run.mesh r \<and>
           Run.status (g r) = Run.status r)"
proof -
  define ok where "ok = (\<lambda>t :: Run list. \<exists>keep g. t = map g (filter keep (runs s)) \<and>
      (\<forall>r. Run.ID (g r) = Run.ID r \<and> Run.mesh (g r) = Run.mesh r \<and>
           Run.status (g r) = Run.status r))"
  have same: "ok (runs s)"
    unfolding ok_def by (rule same_runs)
  have del: "ok (runs (delete_objs rl start s))" for start
    unfolding ok_def by (rule delete_objs_runs)
  have edit: "ok (runs (admin_apply e s))" for e
    unfolding ok_def by (rule admin_apply_runs)
  have "ok (runs (site_apply rl op s))"
    by (cases op)
       (simp_all add: same del edit
          inline_delete_contributions_of_mesh_def inline_delete_contributions_of_contributor_def
          inline_delete_images_of_contribution_def)
  then show ?thesis by (simp only: ok_def)
qed

lemma admin_apply_arks:
  "map ARK_read_only (arks (admin_apply op s)) = map ARK_read_only (arks s)"
  by (cases op) (simp_all add: change_view_map save_ARK_eq ARK_read_only_def)

lemma site_apply_arks:
  "\<exists>keep new. arks (site_apply rl op s) = filter keep (arks s) @ new \<and>
      (\<forall>n\<in>set new. ARK.ark n \<notin> set (map ARK.ark (arks s)))"
  if "\<forall>op'. op \<noteq> Edit op'"
proof -
  define ok where "ok = (\<lambda>t :: ARK list. \<exists>keep new. t = filter keep (arks s) @ new \<and>
      (\<forall>n\<in>set new. ARK.ark n \<notin> set (map ARK.ark (arks s))))"
  have same: "ok (arks s)"
  proof -
    have "arks s = filter (\<lambda>r. True) (arks s) @ []" by simp
    moreover have "\<forall>n\<in>set ([] :: ARK list). ARK.ark n \<notin> set (map ARK.ark (arks s))"
      by simp
    ultimately show ?thesis unfolding ok_def by blast
  qed
  have del: "ok (arks (delete_objs rl start s))" for start
  proof -
    from delete_objs_arks [of rl start s] obtain keep where
      "arks (delete_objs rl start s) = filter keep (arks s) @ []" by auto
    moreover have "\<forall>n\<in>set ([] :: ARK list). ARK.ark n \<notin> set (map ARK.ark (arks s))"
      by simp
    ultimately show ?thesis unfolding ok_def by blast
  qed
  have "ok (arks (site_apply rl op s))"
  proof (cases op)
    case (Edit op')
    with that show ?thesis by simp
  next
    case (Add_ARK row)
    show ?thesis
    proof (cases "ARK.ark row \<in> set (map ARK.ark (arks s))")
      case True
      with Add_ARK same show ?thesis by simp
    next
      case False
      with Add_ARK have "arks (site_apply rl op s) = filter (\<lambda>r. True) (arks s) @ [row]"
        by simp
      moreover from False have "\<forall>n\<in>set [row]. ARK.ark n \<notin> set (map ARK.ark (arks s))"
        by simp
      ultimately show ?thesis unfolding ok_def by blast
    qed
  qed (simp_all add: same del
        inline_delete_contributions_of_mesh_def inline_delete_contributions_of_contributor_def
        inline_delete_images_of_contribution_def)
  then show ?thesis by (simp only: ok_def)
qed

lemmas sample_rows = sample_db_def mesh1_def mesh2_def contributor1_def contributor2_def
  contribution1_def image1_def image2_def image3_def run1_def ark1_def

lemmas delete_eval = delete_objs_def delete_collected_def blocked_def collect.simps
  fresh_referrers_def

text \<open>
  C2, amended: every field of an ARK other than \<open>commitment\<close>, and the status of a Run, is
  read-only at the admin site. Whatever operation the site offers (edit, delete or add)
  and whatever the \<open>on_delete\<close> rules, the ARK rows after it are rows from before, with
  \<open>naan\<close>, \<open>shoulder\<close>, \<open>assigned_name\<close>, \<open>url\<close>, \<open>metadata\<close> and \<open>created_at\<close> (and
  the key) as they were, in their order, followed by rows under keys that were not in use;
  and the Runs after it are Runs from before, each with the status it had. An operation
  can delete an ARK or a Run and can edit \<open>commitment\<close>; an edit operation deletes none.
\<close>

theorem ark_fields_and_run_status_read_only:
  "(\<exists>keep new.
      map ARK_read_only (arks (site_apply rl op s)) =
        map ARK_read_only (filter keep (arks s)) @ map ARK_read_only new \<and>
      (\<forall>n\<in>set new. ARK.ark n \<notin> set (map ARK.ark (arks s)))) \<and>
   (\<exists>keep.
      map (\<lambda>r. (Run.ID r, Run.status r)) (runs (site_apply rl op s)) =
        map (\<lambda>r. (Run.ID r, Run.status r)) (filter keep (runs s))) \<and>
   map ARK_read_only (arks (site_apply rl (Edit op') s)) = map ARK_read_only (arks s) \<and>
   map Run.status (runs (site_apply rl (Edit op') s)) = map Run.status (runs s)"
proof (intro conjI)
  show "\<exists>keep new.
      map ARK_read_only (arks (site_apply rl op s)) =
        map ARK_read_only (filter keep (arks s)) @ map ARK_read_only new \<and>
      (\<forall>n\<in>set new. ARK.ark n \<notin> set (map ARK.ark (arks s)))"
  proof (cases "\<exists>e. op = Edit e")
    case True
    then obtain e where "op = Edit e" by blast
    then have "map ARK_read_only (arks (site_apply rl op s)) =
                 map ARK_read_only (filter (\<lambda>r. True) (arks s)) @ map ARK_read_only []"
      by (simp add: admin_apply_arks)
    then show ?thesis by (intro exI conjI, assumption) simp
  next
    case False
    then have "\<forall>e. op \<noteq> Edit e" by blast
    from site_apply_arks [OF this, of rl s] obtain keep new where
      "arks (site_apply rl op s) = filter keep (arks s) @ new"
      and fresh: "\<forall>n\<in>set new. ARK.ark n \<notin> set (map ARK.ark (arks s))" by blast
    then have "map ARK_read_only (arks (site_apply rl op s)) =
                 map ARK_read_only (filter keep (arks s)) @ map ARK_read_only new"
      by simp
    with fresh show ?thesis by blast
  qed
  show "\<exists>keep.
      map (\<lambda>r. (Run.ID r, Run.status r)) (runs (site_apply rl op s)) =
        map (\<lambda>r. (Run.ID r, Run.status r)) (filter keep (runs s))"
  proof -
    from site_apply_runs [of rl op s] obtain keep g where
      "runs (site_apply rl op s) = map g (filter keep (runs s))"
      and "\<forall>r. Run.ID (g r) = Run.ID r \<and> Run.mesh (g r) = Run.mesh r \<and>
             Run.status (g r) = Run.status r" by blast
    then have "map (\<lambda>r. (Run.ID r, Run.status r)) (runs (site_apply rl op s)) =
        map (\<lambda>r. (Run.ID r, Run.status r)) (filter keep (runs s))"
      by simp
    then show ?thesis by blast
  qed
  show "map ARK_read_only (arks (site_apply rl (Edit op') s)) = map ARK_read_only (arks s)"
    by (simp add: admin_apply_arks)
  show "map Run.status (runs (site_apply rl (Edit op') s)) = map Run.status (runs s)"
    by (simp add: admin_apply_runs_status)
qed

theorem ark_fields_and_run_status_read_only_witness:
  "arks sample_db = [ark1] \<and> map Run.status (runs sample_db) = [Succeeded] \<and>
   arks (site_apply (\<lambda>_. CASCADE) (Delete_ARK (\<lambda>a. True)) sample_db) = [] \<and>
   runs (site_apply (\<lambda>_. CASCADE) (Delete_ARK (\<lambda>a. True)) sample_db) = [] \<and>
   (\<exists>keep new.
      map ARK_read_only (arks (site_apply (\<lambda>_. CASCADE) (Delete_ARK (\<lambda>a. True)) sample_db)) =
        map ARK_read_only (filter keep (arks sample_db)) @ map ARK_read_only new \<and>
      (\<forall>n\<in>set new. ARK.ark n \<notin> set (map ARK.ark (arks sample_db)))) \<and>
   map ARK_read_only
     (arks (site_apply (\<lambda>_. CASCADE)
        (Edit (Change_ARK ''ark:/12345/t1abc'' (ark1\<lparr>commitment := ''forged''\<rparr>))) sample_db)) =
     [ARK_read_only ark1] \<and>
   map Run.status
     (runs (site_apply (\<lambda>_. CASCADE)
        (Edit (Change_ARK ''ark:/12345/t1abc'' (ark1\<lparr>commitment := ''forged''\<rparr>))) sample_db)) =
     [Succeeded]"
proof -
  note t = ark_fields_and_run_status_read_only
             [of "\<lambda>_. CASCADE" "Delete_ARK (\<lambda>a. True)" sample_db
                 "Change_ARK ''ark:/12345/t1abc'' (ark1\<lparr>commitment := ''forged''\<rparr>)"]
  have before: "arks sample_db = [ark1]" "map Run.status (runs sample_db) = [Succeeded]"
    by (simp_all add: sample_db_def run1_def)
  have gone: "arks (site_apply (\<lambda>_. CASCADE) (Delete_ARK (\<lambda>a. True)) sample_db) = []"
    "runs (site_apply (\<lambda>_. CASCADE) (Delete_ARK (\<lambda>a. True)) sample_db) = []"
    by (simp_all add: delete_eval sample_rows)
  from t before show ?thesis
    using gone by simp
qed


section \<open>Deleting from the change page of a mesh\<close>














section \<open>One active run per mesh\<close>

lemma active_meshes_zip:
  "map Run.mesh (filter active rs) =
     map fst (filter (\<lambda>p. snd p = Queued \<or> snd p = Running)
                (zip (map Run.mesh rs) (map Run.status rs)))"
  by (induction rs) (simp_all add: active_def)

lemma at_most_one_active_cong:
  assumes "map Run.mesh (runs s') = map Run.mesh (runs s)"
    and "map Run.status (runs s') = map Run.status (runs s)"
  shows "at_most_one_active s' = at_most_one_active s"
  by (simp add: at_most_one_active_def active_meshes_zip assms)

lemma update_row_active_meshes:
  assumes "\<And>r. Run.mesh (f r) = Run.mesh r"
    and "\<And>r. find P rs = Some r \<Longrightarrow> active (f r) \<Longrightarrow> active r"
  shows "set (map Run.mesh (filter active (update_row P f rs))) \<subseteq>
           set (map Run.mesh (filter active rs))"
  using assms(2)
proof (induction rs)
  case Nil
  then show ?case by simp
next
  case (Cons r rs)
  show ?case
  proof (cases "P r")
    case True
    with Cons.prems [of r] show ?thesis by (auto simp: assms(1))
  next
    case False
    with Cons.prems have "\<And>r'. find P rs = Some r' \<Longrightarrow> active (f r') \<Longrightarrow> active r'"
      by simp
    from Cons.IH [OF this] False show ?thesis by auto
  qed
qed

lemma update_row_distinct:
  assumes "\<And>r. Run.mesh (f r) = Run.mesh r"
    and "\<And>r. find P rs = Some r \<Longrightarrow> active (f r) \<Longrightarrow> active r"
    and "distinct (map Run.mesh (filter active rs))"
  shows "distinct (map Run.mesh (filter active (update_row P f rs)))"
  using assms(2,3)
proof (induction rs)
  case Nil
  then show ?case by simp
next
  case (Cons r rs)
  show ?case
  proof (cases "P r")
    case True
    with Cons.prems(1) [of r] Cons.prems(2) show ?thesis
      by (cases "active r") (auto simp: assms(1))
  next
    case False
    with Cons.prems(1)
    have step: "\<And>r'. find P rs = Some r' \<Longrightarrow> active (f r') \<Longrightarrow> active r'"
      by simp
    have sub: "set (map Run.mesh (filter active (update_row P f rs))) \<subseteq>
                 set (map Run.mesh (filter active rs))"
      by (rule update_row_active_meshes [OF assms(1) step])
    from Cons.prems(2) have "distinct (map Run.mesh (filter active rs))"
      by (cases "active r") simp_all
    from Cons.IH [OF step this] sub Cons.prems(2) False show ?thesis
      by (cases "active r") auto
  qed
qed

lemma update_run_invariant:
  assumes "\<And>r. Run.mesh (f r) = Run.mesh r"
    and "\<And>r. find (\<lambda>r. Run.ID r = rid) (runs s) = Some r \<Longrightarrow> active (f r) \<Longrightarrow> active r"
    and "at_most_one_active s"
  shows "at_most_one_active (update_run rid f s)"
  using update_row_distinct [of f "\<lambda>r. Run.ID r = rid" "runs s"] assms
  by (simp add: at_most_one_active_def update_run_def)

lemma transitionToRunning_invariant:
  assumes "at_most_one_active s" and "transitionToRunning s rid = Inr s'"
  shows "at_most_one_active s'"
proof (cases "find (\<lambda>r. Run.ID r = rid) (runs s)")
  case None
  with assms(2) show ?thesis by (simp add: transitionToRunning_def)
next
  case (Some r)
  show ?thesis
  proof (cases "Run.status r = Queued")
    case True
    with Some assms(2)
    have "s' = update_run rid (\<lambda>r. r\<lparr>Run.status := Running\<rparr>) s"
      by (simp add: transitionToRunning_def)
    moreover have "at_most_one_active (update_run rid (\<lambda>r. r\<lparr>Run.status := Running\<rparr>) s)"
      using assms(1) Some True by (intro update_run_invariant) (simp_all add: active_def)
    ultimately show ?thesis by simp
  next
    case False
    with Some assms show ?thesis
      by (cases "Run.status r") (simp_all add: transitionToRunning_def)
  qed
qed

lemma complete_invariant:
  assumes "at_most_one_active s" and "complete s rid artifactRef now = Inr s'"
  shows "at_most_one_active s'"
proof (cases "find (\<lambda>r. Run.ID r = rid) (runs s)")
  case None
  with assms(2) show ?thesis by (simp add: complete_def)
next
  case (Some r)
  show ?thesis
  proof (cases "Run.status r = Running")
    case True
    with Some assms(2)
    have "s' = update_run rid (\<lambda>r. r\<lparr>Run.status := Succeeded, ended_at := Some now,
                                      directory := artifactRef\<rparr>) s"
      by (simp add: complete_def)
    moreover have "at_most_one_active
        (update_run rid (\<lambda>r. r\<lparr>Run.status := Succeeded, ended_at := Some now,
                               directory := artifactRef\<rparr>) s)"
      using assms(1) by (intro update_run_invariant) (simp_all add: active_def)
    ultimately show ?thesis by simp
  next
    case False
    with Some assms show ?thesis
      by (cases "Run.status r") (simp_all add: complete_def)
  qed
qed

lemma fail_invariant:
  assumes "at_most_one_active s" and "fail s rid reason now = Inr s'"
  shows "at_most_one_active s'"
proof (cases "find (\<lambda>r. Run.ID r = rid) (runs s)")
  case None
  with assms(2) show ?thesis by (simp add: fail_def)
next
  case (Some r)
  show ?thesis
  proof (cases "active r")
    case True
    with Some assms(2)
    have "s' = update_run rid (\<lambda>r. r\<lparr>Run.status := Failed, ended_at := Some now\<rparr>) s"
      by (simp add: fail_def)
    moreover have "at_most_one_active
        (update_run rid (\<lambda>r. r\<lparr>Run.status := Failed, ended_at := Some now\<rparr>) s)"
      using assms(1) by (intro update_run_invariant) (simp_all add: active_def)
    ultimately show ?thesis by simp
  next
    case False
    with Some assms show ?thesis by (simp add: fail_def)
  qed
qed

lemma createRun_Inr:
  assumes "createRun s m now = Inr s'"
  shows "\<not> has_active_run s m"
    and "\<exists>r. runs s' = runs s @ [r] \<and> Run.mesh r = m \<and> Run.status r = Queued"
proof -
  from assms show "\<not> has_active_run s m"
    by (simp add: createRun_def split: if_splits)
  from assms have "s' = s\<lparr>runs := runs s @
               [\<lparr>Run.ID = fresh_run_pk (runs s), ark = None, mesh = m, status = Queued,
                 started_at = now, ended_at = None, directory = [],
                 rotaZ = 0, rotaX = 0, rotaY = 0,
                 images = map (\<lambda>(i, c). Image.ID i) (selected s m),
                 contributors = remdups (map (\<lambda>(i, c). contributor c) (selected s m))\<rparr>]\<rparr>"
    by (simp add: createRun_def Let_def split: if_splits)
  then show "\<exists>r. runs s' = runs s @ [r] \<and> Run.mesh r = m \<and> Run.status r = Queued"
    by simp
qed

lemma createRun_invariant:
  assumes "at_most_one_active s" and "createRun s m now = Inr s'"
  shows "at_most_one_active s'"
proof -
  from createRun_Inr [OF assms(2)] obtain r where
    r: "runs s' = runs s @ [r]" "Run.mesh r = m" "Run.status r = Queued"
    and free: "\<not> has_active_run s m" by blast
  from free have "m \<notin> set (map Run.mesh (filter active (runs s)))"
    by (auto simp: has_active_run_def list_ex_iff)
  with assms(1) r show ?thesis
    by (simp add: at_most_one_active_def active_def)
qed

lemma surviving_runs_invariant:
  assumes "at_most_one_active s"
    and "runs s' = map g (filter keep (runs s))"
    and "\<forall>r. Run.ID (g r) = Run.ID r \<and> Run.mesh (g r) = Run.mesh r \<and>
           Run.status (g r) = Run.status r"
  shows "at_most_one_active s'"
proof -
  from assms(3) have "active (g r) = active r" for r
    by (simp add: active_def)
  then have "filter active (map g (filter keep (runs s))) =
               map g (filter keep (filter active (runs s)))"
    by (simp add: filter_map comp_def conj_commute)
  with assms(3) have "map Run.mesh (filter active (runs s')) =
               map Run.mesh (filter keep (filter active (runs s)))"
    by (simp add: assms(2))
  moreover from assms(1) have "distinct (map Run.mesh (filter keep (filter active (runs s))))"
    unfolding at_most_one_active_def by (rule distinct_map_filter)
  ultimately show ?thesis
    by (simp only: at_most_one_active_def)
qed

lemma reachable_invariant: "reachable s \<Longrightarrow> at_most_one_active s"
proof (induction rule: reachable.induct)
  case (init s)
  then show ?case by (simp add: at_most_one_active_def)
next
  case (created s m now s')
  then show ?case by (blast intro: createRun_invariant)
next
  case (started s rid s')
  then show ?case by (blast intro: transitionToRunning_invariant)
next
  case (completed s rid artifactRef now s')
  then show ?case by (blast intro: complete_invariant)
next
  case (failed s rid reason now s')
  then show ?case by (blast intro: fail_invariant)
next
  case (site s rl op)
  from site_apply_runs [of rl op s] obtain keep g where
    "runs (site_apply rl op s) = map g (filter keep (runs s))"
    "\<forall>r. Run.ID (g r) = Run.ID r \<and> Run.mesh (g r) = Run.mesh r \<and>
       Run.status (g r) = Run.status r" by blast
  with site.IH show ?case by (rule surviving_runs_invariant)
next
  case (other s s')
  from other.hyps(2,3) have "at_most_one_active s' = at_most_one_active s"
    by (rule at_most_one_active_cong)
  with other.IH show ?case by simp
qed

lemma distinct_key_count:
  "distinct (map f ys) \<Longrightarrow> length (filter (\<lambda>r. f r = m) ys) \<le> 1"
proof (induction ys)
  case Nil
  then show ?case by simp
next
  case (Cons y ys)
  show ?case
  proof (cases "f y = m")
    case True
    with Cons.prems have "m \<notin> f ` set ys" by simp
    then have "filter (\<lambda>r. f r = m) ys = []"
      by (force simp: filter_empty_conv)
    with True show ?thesis by simp
  next
    case False
    with Cons show ?thesis by simp
  qed
qed

lemma at_most_one_active_count:
  assumes "at_most_one_active s"
  shows "count (\<lambda>r. Run.mesh r = m \<and> active r) (runs s) \<le> 1"
proof -
  have "filter (\<lambda>r. Run.mesh r = m \<and> active r) (runs s) =
          filter (\<lambda>r. Run.mesh r = m) (filter active (runs s))"
    by (simp add: conj_commute)
  moreover have "length (filter (\<lambda>r. Run.mesh r = m) (filter active (runs s))) \<le> 1"
    using assms unfolding at_most_one_active_def by (rule distinct_key_count)
  ultimately show ?thesis by (simp add: count_def)
qed

lemma createRun_takes_slot:
  assumes "createRun s m now = Inr s'"
  shows "has_active_run s' m"
proof -
  from createRun_Inr(2) [OF assms] obtain r where
    "runs s' = runs s @ [r]" "Run.mesh r = m" "Run.status r = Queued" by blast
  then show ?thesis by (simp add: has_active_run_def active_def)
qed

lemma createRun_conflict: "has_active_run s m \<Longrightarrow> createRun s m now = Inl ConflictError"
  by (simp add: createRun_def)

lemma createRun_empty:
  "\<not> has_active_run s m \<Longrightarrow> select s m = [] \<Longrightarrow> createRun s m now = Inl EmptyInputError"
  by (simp add: createRun_def select_def)

lemma createRun_succeeds:
  "\<not> has_active_run s m \<Longrightarrow> select s m \<noteq> [] \<Longrightarrow> \<exists>s'. createRun s m now = Inr s'"
  by (simp add: createRun_def select_def Let_def)

lemma race_conflict:
  "has_active_run s m \<Longrightarrow> race s m nows = (replicate (length nows) (Inl ConflictError), s)"
  by (induction nows) (simp_all add: createRun_conflict)

lemma race_empty_input:
  "\<not> has_active_run s m \<Longrightarrow> select s m = [] \<Longrightarrow>
   race s m nows = (replicate (length nows) (Inl EmptyInputError), s)"
  by (induction nows) (simp_all add: createRun_empty)

lemma race_winner:
  assumes "\<not> has_active_run s m" and "select s m \<noteq> []"
  shows "\<exists>s'. createRun s m now = Inr s' \<and>
              race s m (now # nows) = (Inr () # replicate (length nows) (Inl ConflictError), s')"
proof -
  from createRun_succeeds [OF assms] obtain s' where s': "createRun s m now = Inr s'"
    by blast
  then have "has_active_run s' m" by (rule createRun_takes_slot)
  then have "race s' m nows = (replicate (length nows) (Inl ConflictError), s')"
    by (rule race_conflict)
  with s' show ?thesis by simp
qed

lemma race_cases:
  "race s m nows = (replicate (length nows) (Inl ConflictError), s) \<or>
   race s m nows = (replicate (length nows) (Inl EmptyInputError), s) \<or>
   (\<exists>now nows' s'. nows = now # nows' \<and> createRun s m now = Inr s' \<and>
      race s m nows = (Inr () # replicate (length nows') (Inl ConflictError), s'))"
proof (cases "has_active_run s m")
  case True
  then show ?thesis by (simp add: race_conflict)
next
  case free: False
  show ?thesis
  proof (cases "select s m = []")
    case True
    with free show ?thesis by (simp add: race_empty_input)
  next
    case False
    show ?thesis
    proof (cases nows)
      case Nil
      then show ?thesis by simp
    next
      case (Cons now nows')
      from race_winner [OF free False, of now nows'] obtain s' where
        "createRun s m now = Inr s'"
        "race s m (now # nows') = (Inr () # replicate (length nows') (Inl ConflictError), s')"
        by blast
      with Cons show ?thesis by blast
    qed
  qed
qed

lemma race_reachable:
  assumes "reachable s"
  shows "reachable (snd (race s m nows))"
  using race_cases [of s m nows]
proof (elim disjE exE conjE)
  fix now nows' s'
  assume "createRun s m now = Inr s'"
    and "race s m nows = (Inr () # replicate (length nows') (Inl ConflictError), s')"
  with assms show ?thesis by (simp add: reachable.created [of s m now s'])
qed (simp_all add: assms)

lemma count_replicate_other:
  "x \<noteq> y \<Longrightarrow> count (\<lambda>r. r = y) (replicate n x) = 0"
  by (simp add: count_def)

lemma race_at_most_one_success:
  "count (\<lambda>r. r = Inr ()) (fst (race s m nows)) \<le> 1"
  using race_cases [of s m nows]
proof (elim disjE exE conjE)
  fix now nows' s'
  assume "race s m nows = (Inr () # replicate (length nows') (Inl ConflictError), s')"
  then have "count (\<lambda>r. r = Inr ()) (fst (race s m nows)) =
               1 + count (\<lambda>r. r = Inr ()) (replicate (length nows') (Inl ConflictError :: error + unit))"
    by (simp add: count_def)
  then show ?thesis by (simp add: count_replicate_other)
qed (simp_all add: count_replicate_other)

lemma createRun_persists:
  assumes "createRun s m now = Inr s'"
  shows "\<exists>r. runs s' = runs s @ [r] \<and> Run.mesh r = m \<and> Run.status r = Queued \<and>
             images r = select s m \<and> started_at r = now"
proof -
  from assms have "s' = s\<lparr>runs := runs s @
               [\<lparr>Run.ID = fresh_run_pk (runs s), ark = None, mesh = m, status = Queued,
                 started_at = now, ended_at = None, directory = [],
                 rotaZ = 0, rotaX = 0, rotaY = 0,
                 images = map (\<lambda>(i, c). Image.ID i) (selected s m),
                 contributors = remdups (map (\<lambda>(i, c). contributor c) (selected s m))\<rparr>]\<rparr>"
    by (simp add: createRun_def Let_def split: if_splits)
  then show ?thesis
    by (simp add: select_def)
qed

lemma select_fresh_db: "select fresh_db 1 = [1, 2]" "select fresh_db 2 = []"
  by (simp_all add: select_def selected_def eligible_def fresh_db_def sample_db_def
        image1_def image2_def image3_def contribution1_def contributor1_def contributor2_def
        contributor_banned_def)

lemma fresh_db_idle: "\<not> has_active_run fresh_db m"
  by (simp add: has_active_run_def fresh_db_def)

text \<open>
  C1, as claimed: whenever several \<open>createRun\<close> calls race on one mesh, exactly one
  succeeds and every other one fails with \<open>ConflictError\<close>. On a mesh without eligible
  images this fails: the second mesh of the sample database has no contribution, and of
  three racing calls none succeeds and none meets a conflict; each fails with
  \<open>EmptyInputError\<close> and the database stays as it was.
\<close>

theorem race_without_eligible_images_counterexample:
  "race fresh_db 2 [200, 201, 202] =
     ([Inl EmptyInputError, Inl EmptyInputError, Inl EmptyInputError], fresh_db)"
  using race_empty_input [OF fresh_db_idle select_fresh_db(2), of "[200, 201, 202]"]
  by (simp add: numeral_3_eq_3)

text \<open>
  C1, amended: in every reachable state every mesh has at most one Run that is queued or
  running, also after any race of \<open>createRun\<close> calls, which leads to a reachable state
  again. In a race of \<open>createRun\<close> calls on one mesh at most one call succeeds. When the
  mesh has no active Run and at least one eligible image, exactly one call succeeds (the
  first to pass the guard) and every other one fails with \<open>ConflictError\<close>, and exactly
  one Run is persisted: a queued Run of that mesh over the selection, started at the time
  of the winning call. When the mesh already has an active Run every call fails with
  \<open>ConflictError\<close>, and when it has no active Run and no eligible image every call fails
  with \<open>EmptyInputError\<close>; in both cases no Run is persisted and the database is left as
  it was.
\<close>

theorem one_active_run_per_mesh:
  assumes "reachable s"
  shows "count (\<lambda>r. Run.mesh r = m \<and> active r) (runs s) \<le> 1 \<and>
         reachable (snd (race s m' nows)) \<and>
         count (\<lambda>r. Run.mesh r = m \<and> active r) (runs (snd (race s m' nows))) \<le> 1 \<and>
         count (\<lambda>r. r = Inr ()) (fst (race s m' nows)) \<le> 1 \<and>
         (\<not> has_active_run s m' \<and> select s m' \<noteq> [] \<longrightarrow>
            fst (race s m' (now # nows)) =
              Inr () # replicate (length nows) (Inl ConflictError) \<and>
            (\<exists>r. runs (snd (race s m' (now # nows))) = runs s @ [r] \<and>
                 Run.mesh r = m' \<and> Run.status r = Queued \<and>
                 images r = select s m' \<and> started_at r = now)) \<and>
         (has_active_run s m' \<longrightarrow>
            fst (race s m' nows) = replicate (length nows) (Inl ConflictError) \<and>
            snd (race s m' nows) = s) \<and>
         (\<not> has_active_run s m' \<and> select s m' = [] \<longrightarrow>
            fst (race s m' nows) = replicate (length nows) (Inl EmptyInputError) \<and>
            snd (race s m' nows) = s)"
proof -
  have after: "reachable (snd (race s m' nows))"
    using assms by (rule race_reachable)
  have one: "count (\<lambda>r. Run.mesh r = m \<and> active r) (runs t) \<le> 1" if "reachable t" for t
    using that by (intro at_most_one_active_count reachable_invariant)
  have win: "\<not> has_active_run s m' \<and> select s m' \<noteq> [] \<longrightarrow>
            fst (race s m' (now # nows)) =
              Inr () # replicate (length nows) (Inl ConflictError) \<and>
            (\<exists>r. runs (snd (race s m' (now # nows))) = runs s @ [r] \<and>
                 Run.mesh r = m' \<and> Run.status r = Queued \<and>
                 images r = select s m' \<and> started_at r = now)"
  proof
    assume "\<not> has_active_run s m' \<and> select s m' \<noteq> []"
    then obtain s' where made: "createRun s m' now = Inr s'" and
      "race s m' (now # nows) = (Inr () # replicate (length nows) (Inl ConflictError), s')"
      using race_winner [of s m' now nows] by blast
    then have "fst (race s m' (now # nows)) =
                 Inr () # replicate (length nows) (Inl ConflictError)"
      and "snd (race s m' (now # nows)) = s'"
      by simp_all
    with createRun_persists [OF made]
    show "fst (race s m' (now # nows)) =
              Inr () # replicate (length nows) (Inl ConflictError) \<and>
            (\<exists>r. runs (snd (race s m' (now # nows))) = runs s @ [r] \<and>
                 Run.mesh r = m' \<and> Run.status r = Queued \<and>
                 images r = select s m' \<and> started_at r = now)"
      by simp
  qed
  have conflict: "has_active_run s m' \<longrightarrow>
            fst (race s m' nows) = replicate (length nows) (Inl ConflictError) \<and>
            snd (race s m' nows) = s"
    by (simp add: race_conflict)
  have empty: "\<not> has_active_run s m' \<and> select s m' = [] \<longrightarrow>
            fst (race s m' nows) = replicate (length nows) (Inl EmptyInputError) \<and>
            snd (race s m' nows) = s"
    by (simp add: race_empty_input)
  from one [OF assms] after one [OF after] race_at_most_one_success [of s m' nows]
    win conflict empty
  show ?thesis by blast
qed

theorem one_active_run_per_mesh_witness:
  "reachable fresh_db \<and> \<not> has_active_run fresh_db 1 \<and> select fresh_db 1 = [1, 2] \<and>
   fst (race fresh_db 1 [200, 201, 202]) = [Inr (), Inl ConflictError, Inl ConflictError] \<and>
   map Run.mesh (runs (snd (race fresh_db 1 [200, 201, 202]))) = [1] \<and>
   count (\<lambda>r. Run.mesh r = 1 \<and> active r) (runs (snd (race fresh_db 1 [200, 201, 202]))) \<le> 1 \<and>
   select fresh_db 2 = [] \<and>
   fst (race fresh_db 2 [200, 201]) = [Inl EmptyInputError, Inl EmptyInputError] \<and>
   snd (race fresh_db 2 [200, 201]) = fresh_db"
proof -
  have r: "reachable fresh_db"
    by (rule reachable.init) (simp add: fresh_db_def)
  have idle: "\<not> has_active_run fresh_db 1" "\<not> has_active_run fresh_db 2"
    by (rule fresh_db_idle)+
  have sel: "select fresh_db 1 = [1, 2]"
    by (rule select_fresh_db)
  then have ne: "select fresh_db 1 \<noteq> []"
    by simp
  have none: "select fresh_db 2 = []"
    by (rule select_fresh_db)
  have no_runs: "runs fresh_db = []"
    by (simp add: fresh_db_def)
  from one_active_run_per_mesh [OF r, of 1 1 "[201, 202]" 200] idle(1) ne
  have "fst (race fresh_db 1 (200 # [201, 202])) =
          Inr () # replicate (length [201, 202 :: nat]) (Inl ConflictError)"
    and "\<exists>r. runs (snd (race fresh_db 1 (200 # [201, 202]))) = runs fresh_db @ [r] \<and>
           Run.mesh r = 1 \<and> Run.status r = Queued \<and>
           images r = select fresh_db 1 \<and> started_at r = 200"
    by blast+
  then have win:
    "fst (race fresh_db 1 [200, 201, 202]) = [Inr (), Inl ConflictError, Inl ConflictError]"
    and made: "map Run.mesh (runs (snd (race fresh_db 1 [200, 201, 202]))) = [1]"
    by (auto simp add: numeral_2_eq_2 no_runs simp del: race.simps)
  from one_active_run_per_mesh [OF r, of 1 1 "[200, 201, 202]" 0]
  have cnt: "count (\<lambda>r. Run.mesh r = 1 \<and> active r)
               (runs (snd (race fresh_db 1 [200, 201, 202]))) \<le> 1"
    by blast
  from one_active_run_per_mesh [OF r, of 2 2 "[200, 201]" 0] idle(2) none
  have "fst (race fresh_db 2 [200, 201]) = replicate (length [200, 201 :: nat]) (Inl EmptyInputError)"
    and same: "snd (race fresh_db 2 [200, 201]) = fresh_db"
    by blast+
  then have lost: "fst (race fresh_db 2 [200, 201]) = [Inl EmptyInputError, Inl EmptyInputError]"
    by (simp add: numeral_2_eq_2 del: race.simps)
  from r idle(1) sel win made cnt none lost same show ?thesis
    by blast
qed
end
